theory Spec2Isabelle
  imports Complex_Main "HOL-Library.Product_Lexorder" "HOL-Library.Multiset"
begin

section \<open>Investment metrics engine of the real-estate analyzer\<close>

text \<open>
  The development embeds the deterministic financial formulas of the three entry points
  (\<^verbatim>\<open>app.py\<close>: \<^verbatim>\<open>calculate_metrics\<close> and \<^verbatim>\<open>run_analysis\<close>;
  \<^verbatim>\<open>api.py\<close>: \<^verbatim>\<open>analyze_property\<close>; \<^verbatim>\<open>dash_app.py\<close>:
  \<^verbatim>\<open>scenario_outputs\<close>, \<^verbatim>\<open>needed_numbers\<close>) and the comparables filter of
  \<^verbatim>\<open>dash_app.py\<close>.

  Python floats are modelled as exact reals: every statement below is about the
  arithmetic the formulas denote, not about IEEE rounding, overflow or NaN. The one
  non-finite float the code creates on purpose, \<^verbatim>\<open>float('inf')\<close>, is a constructor
  of \<open>py_float\<close>. Python's \<^verbatim>\<open>ZeroDivisionError\<close> is a value of \<open>py_error\<close>.
\<close>

subsection \<open>Python values\<close>

datatype py_error = ZeroDivisionError

datatype py_float = Finite real | Inf

text \<open>
  \<^verbatim>\<open>x ** n\<close> for a float base and an int exponent. The only call sites raise
  \<^verbatim>\<open>1 + monthly_rate\<close> under the guard \<^verbatim>\<open>monthly_rate > 0\<close>, so the base is
  never zero there.
\<close>

definition py_pow :: "real \<Rightarrow> int \<Rightarrow> real" where
  "py_pow x n = (if 0 \<le> n then x ^ nat n else 1 / x ^ nat (- n))"

subsection \<open>Mortgage payment\<close>

text \<open>
  The conditional expression repeated verbatim in \<^verbatim>\<open>app.py\<close> (lines 101 and 555),
  \<^verbatim>\<open>api.py\<close> (line 81) and \<^verbatim>\<open>dash_app.py\<close> (line 391):
  \<^verbatim>\<open>loan_amount * (monthly_rate * (1 + monthly_rate)**num_payments)
     / ((1 + monthly_rate)**num_payments - 1) if loan_amount > 0 and monthly_rate > 0 else 0\<close>.
  The division raises when the denominator is zero.
\<close>

definition monthly_payment :: "real \<Rightarrow> real \<Rightarrow> int \<Rightarrow> py_error + real" where
  "monthly_payment loan_amount monthly_rate num_payments =
     (if loan_amount > 0 \<and> monthly_rate > 0 then
        (if py_pow (1 + monthly_rate) num_payments - 1 = 0 then Inl ZeroDivisionError
         else Inr (loan_amount * (monthly_rate * py_pow (1 + monthly_rate) num_payments)
                     / (py_pow (1 + monthly_rate) num_payments - 1)))
      else Inr 0)"

subsection \<open>Amortization loops\<close>

text \<open>
  \<^verbatim>\<open>calculate_metrics\<close>, first-year principal (run for \<^verbatim>\<open>range(12)\<close>):
  \<^verbatim>\<open>interest = balance * monthly_rate; principal = monthly_payment - interest;
  principal_paid_yr1 += principal; balance -= principal\<close>.
  The state is the pair (principal paid so far, balance); the first argument is the
  number of iterations.
\<close>

fun amortize :: "nat \<Rightarrow> real \<Rightarrow> real \<Rightarrow> real \<times> real \<Rightarrow> real \<times> real" where
  "amortize 0 monthly_rate payment (paid, balance) = (paid, balance)"
| "amortize (Suc i) monthly_rate payment (paid, balance) =
     (let interest = balance * monthly_rate;
          principal = payment - interest
      in amortize i monthly_rate payment (paid + principal, balance - principal))"

text \<open>
  \<^verbatim>\<open>run_analysis\<close>, projected equity after \<^verbatim>\<open>y\<close> years (run for
  \<^verbatim>\<open>range(y*12)\<close>): the same body followed by \<^verbatim>\<open>if bal < 0: break\<close>.
\<close>

fun equity_loop :: "nat \<Rightarrow> real \<Rightarrow> real \<Rightarrow> real \<times> real \<Rightarrow> real \<times> real" where
  "equity_loop 0 monthly_rate payment (eq, bal) = (eq, bal)"
| "equity_loop (Suc i) monthly_rate payment (eq, bal) =
     (let interest = bal * monthly_rate;
          principal = payment - interest;
          eq' = eq + principal;
          bal' = bal - principal
      in if bal' < 0 then (eq', bal') else equity_loop i monthly_rate payment (eq', bal'))"

text \<open>
  \<^verbatim>\<open>run_analysis\<close>, remaining loan at sale (run for \<^verbatim>\<open>range(hold*12)\<close>): the
  body followed by \<^verbatim>\<open>if bal < 0: bal = 0\<close>.
\<close>

fun remaining_loop :: "nat \<Rightarrow> real \<Rightarrow> real \<Rightarrow> real \<Rightarrow> real" where
  "remaining_loop 0 monthly_rate payment bal = bal"
| "remaining_loop (Suc i) monthly_rate payment bal =
     (let interest = bal * monthly_rate;
          principal = payment - interest;
          bal' = bal - principal
      in remaining_loop i monthly_rate payment (if bal' < 0 then 0 else bal'))"

subsection \<open>\<^verbatim>\<open>app.py\<close>: \<^verbatim>\<open>calculate_metrics\<close>\<close>

datatype vacancy_mode = Percent | Months

text \<open>The \<^verbatim>\<open>assumptions\<close> dictionary, with the keys \<^verbatim>\<open>calculate_metrics\<close> reads.\<close>

record assumptions =
  down_payment_pct :: real
  interest_rate :: real
  loan_term :: int
  estimated_rent :: real
  property_tax_rate :: real
  insurance_rate :: real
  maintenance_rate :: real
  capital_reserves_rate :: real
  vacancy_rate :: real
  vacancy_mode :: vacancy_mode
  vacancy_months :: "real option"
  closing_costs_pct :: real

text \<open>
  The module-level sidebar inputs \<^verbatim>\<open>manual_*\<close> that \<^verbatim>\<open>calculate_metrics\<close>
  reads as globals (a value \<open>> 0\<close> replaces the computed monthly figure).
\<close>

record manual_overrides =
  manual_property_tax :: real
  manual_insurance :: real
  manual_management :: real
  manual_maintenance :: real
  manual_capital_reserves :: real
  manual_vacancy :: real

text \<open>
  The returned dictionary, without the two display strings and without \<^verbatim>\<open>irr\<close> and
  \<^verbatim>\<open>npv\<close>, which are computed by the external \<^verbatim>\<open>numpy_financial\<close> package.
\<close>

record metrics =
  monthly_cash_flow :: real
  cap_rate :: real
  cash_on_cash :: real
  break_even_rent :: real
  total_upfront_cost :: real
  rent_to_price :: real
  total_roi :: real
  payback_period :: py_float
  overridden :: "bool \<times> bool \<times> bool \<times> bool \<times> bool \<times> bool"

text \<open>
  Everything \<^verbatim>\<open>calculate_metrics\<close> does after the mortgage payment is known. The
  function computes the expense chain once without and once with the manual overrides;
  the second computation overwrites every variable of the first and is the one returned,
  so the model keeps from the first pass only the six annual figures the overrides
  fall back to.
\<close>

definition metrics_after_payment ::
  "real \<Rightarrow> assumptions \<Rightarrow> manual_overrides \<Rightarrow> real \<Rightarrow> real \<Rightarrow> real \<Rightarrow> real \<Rightarrow> metrics" where
  "metrics_after_payment price a mo down_payment loan_amount monthly_rate payment =
     (let monthly_rent = estimated_rent a;
          annual_property_tax0 = price * (property_tax_rate a / 100);
          annual_insurance0 = price * (insurance_rate a / 100);
          annual_management0 = monthly_rent * 0.08 * 12;
          annual_maintenance0 = monthly_rent * (maintenance_rate a / 100) * 12;
          annual_capital_reserves0 = monthly_rent * (capital_reserves_rate a / 100) * 12;
          annual_vacancy0 =
            (case (vacancy_mode a, vacancy_months a) of
               (Months, Some months) \<Rightarrow> monthly_rent * months
             | _ \<Rightarrow> monthly_rent * (vacancy_rate a / 100) * 12);
          monthly_property_tax =
            (if manual_property_tax mo > 0 then manual_property_tax mo else annual_property_tax0 / 12);
          monthly_insurance =
            (if manual_insurance mo > 0 then manual_insurance mo else annual_insurance0 / 12);
          monthly_management =
            (if manual_management mo > 0 then manual_management mo else annual_management0 / 12);
          monthly_maintenance =
            (if manual_maintenance mo > 0 then manual_maintenance mo else annual_maintenance0 / 12);
          monthly_capital_reserves =
            (if manual_capital_reserves mo > 0 then manual_capital_reserves mo
             else annual_capital_reserves0 / 12);
          monthly_vacancy =
            (if manual_vacancy mo > 0 then manual_vacancy mo else annual_vacancy0 / 12);
          annual_property_tax = monthly_property_tax * 12;
          annual_insurance = monthly_insurance * 12;
          annual_management = monthly_management * 12;
          annual_maintenance = monthly_maintenance * 12;
          annual_capital_reserves = monthly_capital_reserves * 12;
          annual_vacancy = monthly_vacancy * 12;
          annual_expenses = annual_property_tax + annual_insurance + annual_management
            + annual_maintenance + annual_capital_reserves + annual_vacancy;
          monthly_expenses = annual_expenses / 12;
          cash_flow = monthly_rent - payment - monthly_expenses;
          annual_operating_expenses = annual_property_tax + annual_insurance + annual_management
            + annual_maintenance + annual_capital_reserves + annual_vacancy;
          noi = (monthly_rent * 12) - annual_operating_expenses;
          cap = (if price > 0 then (noi / price) * 100 else 0);
          upfront = down_payment + price * (closing_costs_pct a / 100);
          coc = (if upfront > 0 then (cash_flow * 12) / upfront * 100 else 0);
          piti = payment + (annual_property_tax + annual_insurance) / 12;
          break_even = piti + annual_management / 12 + annual_maintenance / 12
            + annual_capital_reserves / 12 + annual_vacancy / 12;
          rtp = (if price > 0 then (monthly_rent / price) * 100 else 0);
          principal_paid_yr1 =
            (if loan_amount > 0 \<and> monthly_rate > 0
             then fst (amortize 12 monthly_rate payment (0, loan_amount)) else 0);
          appreciation = price * 0.03;
          roi = (if upfront > 0
                 then ((cash_flow * 12) + principal_paid_yr1 + appreciation) / upfront * 100 else 0);
          annual_cash_flow = cash_flow * 12;
          payback = (if annual_cash_flow > 0 then Finite (upfront / annual_cash_flow) else Inf)
      in \<lparr> monthly_cash_flow = cash_flow, cap_rate = cap, cash_on_cash = coc,
           break_even_rent = break_even, total_upfront_cost = upfront, rent_to_price = rtp,
           total_roi = roi, payback_period = payback,
           overridden = (manual_property_tax mo > 0, manual_insurance mo > 0,
             manual_management mo > 0, manual_maintenance mo > 0,
             manual_capital_reserves mo > 0, manual_vacancy mo > 0) \<rparr>)"

text \<open>
  \<^verbatim>\<open>calculate_metrics(property_data, assumptions)\<close>; \<open>price\<close> is the parsed
  \<^verbatim>\<open>property_data['price']\<close>. A \<^verbatim>\<open>ZeroDivisionError\<close> of the payment expression
  leaves the function.
\<close>

definition calculate_metrics :: "real \<Rightarrow> assumptions \<Rightarrow> manual_overrides \<Rightarrow> py_error + metrics" where
  "calculate_metrics price a mo =
     (let down_payment = price * (down_payment_pct a / 100);
          loan_amount = price - down_payment;
          monthly_rate = interest_rate a / 100 / 12;
          num_payments = loan_term a * 12
      in case monthly_payment loan_amount monthly_rate num_payments of
           Inl e \<Rightarrow> Inl e
         | Inr payment \<Rightarrow>
             Inr (metrics_after_payment price a mo down_payment loan_amount monthly_rate payment))"

definition no_overrides :: manual_overrides where
  "no_overrides = \<lparr> manual_property_tax = 0, manual_insurance = 0, manual_management = 0,
     manual_maintenance = 0, manual_capital_reserves = 0, manual_vacancy = 0 \<rparr>"

subsection \<open>\<^verbatim>\<open>app.py\<close>: \<^verbatim>\<open>run_analysis\<close>\<close>

text \<open>
  \<^verbatim>\<open>safe_int\<close> on a number: \<^verbatim>\<open>int(val)\<close> truncates towards zero.
\<close>

definition safe_int :: "real \<Rightarrow> int" where
  "safe_int val = (if val \<ge> 0 then \<lfloor>val\<rfloor> else \<lceil>val\<rceil>)"

text \<open>
  The gap report of \<^verbatim>\<open>run_analysis\<close> (the branch taken when the verdict is not Buy),
  with \<^verbatim>\<open>buy_threshold_cap_rate = 6\<close> and \<^verbatim>\<open>buy_threshold_cash_flow = 300\<close>.
  Python's truth test on \<^verbatim>\<open>assumptions['vacancy_months']\<close> fails for \<^verbatim>\<open>None\<close>
  and for \<^verbatim>\<open>0.0\<close>.
\<close>

definition app_needed_rent_for_cap_rate :: "real \<Rightarrow> assumptions \<Rightarrow> real" where
  "app_needed_rent_for_cap_rate price a =
     ((6 / 100) * real_of_int (safe_int price)
       + (property_tax_rate a / 100 + insurance_rate a / 100 + maintenance_rate a / 100
          + capital_reserves_rate a / 100
          + (case (vacancy_mode a, vacancy_months a) of
               (Months, Some months) \<Rightarrow>
                 (if months \<noteq> 0 then months / 12 else vacancy_rate a / 100)
             | _ \<Rightarrow> vacancy_rate a / 100))
         * real_of_int (safe_int price)) / 12"

definition app_needed_numbers :: "real \<Rightarrow> assumptions \<Rightarrow> metrics \<Rightarrow> real \<times> real \<times> real \<times> real" where
  "app_needed_numbers price a m =
     (max 0 (300 - monthly_cash_flow m), max 0 (6 - cap_rate m), break_even_rent m + 300,
      app_needed_rent_for_cap_rate price a)"

text \<open>
  The equity projection of \<^verbatim>\<open>run_analysis\<close> for year \<open>y\<close>: the pair
  (\<^verbatim>\<open>eq\<close>, \<^verbatim>\<open>bal\<close>) when the inner loop ends.

  Where the projection runs past the loan term, exact and floating-point arithmetic part
  at the last payment of the loan: the exact balance is then 0, so the loop goes on and
  makes one more payment, while the float balance is a rounding residue of either sign.
  With a positive residue the float loop also makes that extra payment (price 100000,
  nothing down, 0.1%, 15 years: 181 payments, final balance about -559.76, as here);
  with a negative one it leaves at the last payment of the loan with that residue as its
  balance (price 200000, 20% down, 6%, 15 years: about -5e-9, where this model gives
  minus one payment). The model is used below only on an input of the first kind.
\<close>

definition projected_equity :: "real \<Rightarrow> real \<Rightarrow> real \<Rightarrow> int \<Rightarrow> nat \<Rightarrow> py_error + real \<times> real" where
  "projected_equity price scenario_down scenario_interest term y =
     (let balance = price - (price * scenario_down / 100);
          monthly_rate = scenario_interest / 100 / 12
      in case monthly_payment balance monthly_rate (term * 12) of
           Inl e \<Rightarrow> Inl e
         | Inr payment \<Rightarrow> Inr (equity_loop (y * 12) monthly_rate payment (0, balance)))"

subsection \<open>\<^verbatim>\<open>api.py\<close>: \<^verbatim>\<open>analyze_property\<close>\<close>

text \<open>The JSON request fields the financial part reads (after their defaults are filled in).\<close>

record api_request =
  req_price :: real
  downPaymentPct :: real
  interestRate :: real
  loanTerm :: int
  propertyTaxRate :: real
  insuranceRate :: real
  maintenanceRate :: real
  capitalReservesRate :: real
  vacancyRate :: real
  closingCostsPct :: real

text \<open>The \<^verbatim>\<open>results\<close> object of the JSON response.\<close>

record api_results =
  monthlyRent :: real
  monthlyPayment :: real
  monthlyCashFlow :: real
  capRate :: real
  cashOnCash :: real
  breakEvenRent :: real
  rentToPrice :: real
  totalROI :: real
  paybackPeriod :: real

text \<open>
  \<^verbatim>\<open>payback_period = total_upfront_cost / (monthly_cash_flow * 12)
  if monthly_cash_flow > 0 else float('inf')\<close>.
\<close>

definition api_payback_period :: "real \<Rightarrow> real \<Rightarrow> py_float" where
  "api_payback_period upfront cash_flow =
     (if cash_flow > 0 then Finite (upfront / (cash_flow * 12)) else Inf)"

text \<open>
  The rent used: \<^verbatim>\<open>price * 0.008\<close> unless the predictor is loaded and returns a
  positive value; \<open>predicted\<close> is \<open>None\<close> when there is no predictor or it failed.
\<close>

definition api_monthly_rent :: "real \<Rightarrow> real option \<Rightarrow> real" where
  "api_monthly_rent price predicted =
     (case predicted of
        Some predicted_rent \<Rightarrow> (if predicted_rent > 0 then predicted_rent else price * 0.008)
      | None \<Rightarrow> price * 0.008)"

text \<open>
  The financial part of \<^verbatim>\<open>analyze_property\<close>. An exception is caught by the
  handler's \<^verbatim>\<open>except\<close> and becomes the error response (\<open>Inl\<close>). The response
  replaces an infinite payback period by \<^verbatim>\<open>999\<close>.
\<close>

definition analyze_property :: "api_request \<Rightarrow> real option \<Rightarrow> py_error + api_results" where
  "analyze_property req predicted =
     (let price = req_price req;
          down_payment = price * (downPaymentPct req / 100);
          loan_amount = price - down_payment;
          monthly_rate = interestRate req / 100 / 12;
          num_payments = loanTerm req * 12
      in case monthly_payment loan_amount monthly_rate num_payments of
           Inl e \<Rightarrow> Inl e
         | Inr payment \<Rightarrow>
            (let monthly_rent = api_monthly_rent price predicted;
                 monthly_property_tax = price * (propertyTaxRate req / 100) / 12;
                 monthly_insurance = price * (insuranceRate req / 100) / 12;
                 monthly_management = monthly_rent * 0.08;
                 monthly_maintenance = monthly_rent * (maintenanceRate req / 100);
                 monthly_capital_reserves = monthly_rent * (capitalReservesRate req / 100);
                 monthly_vacancy = monthly_rent * (vacancyRate req / 100);
                 monthly_expenses = monthly_property_tax + monthly_insurance + monthly_management
                   + monthly_maintenance + monthly_capital_reserves + monthly_vacancy;
                 cash_flow = monthly_rent - payment - monthly_expenses;
                 annual_operating_expenses = monthly_expenses * 12;
                 noi = (monthly_rent * 12) - annual_operating_expenses;
                 cap = (if price > 0 then (noi / price) * 100 else 0);
                 upfront = down_payment + price * (closingCostsPct req / 100);
                 coc = (if upfront > 0 then (cash_flow * 12) / upfront * 100 else 0);
                 piti = payment + monthly_property_tax + monthly_insurance;
                 break_even = piti + monthly_management + monthly_maintenance
                   + monthly_capital_reserves + monthly_vacancy;
                 rtp = (if price > 0 then (monthly_rent / price) * 100 else 0);
                 appreciation = price * 0.03;
                 roi = (if upfront > 0 then ((cash_flow * 12) + appreciation) / upfront * 100 else 0);
                 payback = api_payback_period upfront cash_flow
             in Inr \<lparr> monthlyRent = monthly_rent, monthlyPayment = payment,
                      monthlyCashFlow = cash_flow, capRate = cap, cashOnCash = coc,
                      breakEvenRent = break_even, rentToPrice = rtp, totalROI = roi,
                      paybackPeriod = (case payback of Finite v \<Rightarrow> v | Inf \<Rightarrow> 999) \<rparr>))"

subsection \<open>\<^verbatim>\<open>utils/analysis.py\<close>\<close>

text \<open>\<^verbatim>\<open>calculate_roi(monthly_cash_flow, down_payment, annual_appreciation_rate=0.03)\<close>.\<close>

definition calculate_roi :: "real \<Rightarrow> real \<Rightarrow> real \<Rightarrow> py_error + real" where
  "calculate_roi cash_flow down_payment annual_appreciation_rate =
     (let annual_cash_flow = cash_flow * 12;
          annual_appreciation = down_payment * annual_appreciation_rate;
          total_annual_return = annual_cash_flow + annual_appreciation
      in if down_payment = 0 then Inl ZeroDivisionError
         else Inr ((total_annual_return / down_payment) * 100))"


subsection \<open>\<^verbatim>\<open>dash_app.py\<close>: recommendation helpers and \<^verbatim>\<open>scenario_outputs\<close>\<close>

definition BUY_THRESHOLD_CAP_RATE :: real where
  "BUY_THRESHOLD_CAP_RATE = 6"

definition BUY_THRESHOLD_CASH_FLOW :: real where
  "BUY_THRESHOLD_CASH_FLOW = 300"

text \<open>\<^verbatim>\<open>needed_numbers(cap_rate, cash_flow, break_even_rent, price)\<close>.\<close>

definition needed_numbers :: "real \<Rightarrow> real \<Rightarrow> real \<Rightarrow> real \<Rightarrow> real \<times> real \<times> real \<times> real" where
  "needed_numbers cap cash_flow break_even price =
     (let needed_cash_flow = max 0 (BUY_THRESHOLD_CASH_FLOW - cash_flow);
          needed_cap_rate = max 0 (BUY_THRESHOLD_CAP_RATE - cap);
          needed_rent_for_cash_flow = break_even + BUY_THRESHOLD_CASH_FLOW;
          needed_rent_for_cap_rate = ((BUY_THRESHOLD_CAP_RATE / 100) * price) / 12
      in (needed_cash_flow, needed_cap_rate, needed_rent_for_cash_flow, needed_rent_for_cap_rate))"

text \<open>The financial variables of one scenario.\<close>

record scenario =
  sc_monthly_payment :: real
  sc_monthly_cash_flow :: real
  sc_cap_rate :: real
  sc_break_even_rent :: real
  sc_needed :: "real \<times> real \<times> real \<times> real"
  sc_cash_on_cash :: real

text \<open>The inputs of \<^verbatim>\<open>scenario_outputs\<close> that its investment calculations read.\<close>

record scenario_inputs =
  in_price :: "real option"
  in_down_payment_pct :: real
  in_interest_rate :: real
  in_loan_term :: int
  in_property_tax_rate :: real
  in_insurance_rate :: real
  in_maintenance_rate :: real
  in_capital_reserves_rate :: real
  in_vacancy_rate :: real
  in_closing_costs_pct :: real

text \<open>
  The block "Investment calculations" of \<^verbatim>\<open>scenario_outputs\<close>; \<open>monthly_rent\<close> is
  the rent override or the model's prediction, already converted by \<^verbatim>\<open>float\<close>.
  \<^verbatim>\<open>price or 0\<close> turns a missing or zero price into 0.
\<close>

definition scenario_outputs :: "scenario_inputs \<Rightarrow> real \<Rightarrow> py_error + scenario" where
  "scenario_outputs i monthly_rent =
     (let price_val = (case in_price i of Some p \<Rightarrow> p | None \<Rightarrow> 0);
          down_payment = price_val * (in_down_payment_pct i / 100);
          loan_amount = price_val - down_payment;
          monthly_rate = (in_interest_rate i / 100) / 12;
          num_payments = in_loan_term i * 12
      in case monthly_payment loan_amount monthly_rate num_payments of
           Inl e \<Rightarrow> Inl e
         | Inr payment \<Rightarrow>
            (let annual_property_tax = price_val * (in_property_tax_rate i / 100);
                 annual_insurance = price_val * (in_insurance_rate i / 100);
                 annual_management = monthly_rent * 0.08 * 12;
                 annual_maintenance = monthly_rent * (in_maintenance_rate i / 100) * 12;
                 annual_capital_reserves = monthly_rent * (in_capital_reserves_rate i / 100) * 12;
                 annual_vacancy = monthly_rent * (in_vacancy_rate i / 100) * 12;
                 annual_expenses = annual_property_tax + annual_insurance + annual_management
                   + annual_maintenance + annual_capital_reserves + annual_vacancy;
                 monthly_expenses = annual_expenses / 12;
                 cash_flow = monthly_rent - payment - monthly_expenses;
                 noi = (monthly_rent * 12) - annual_expenses;
                 cap = (if price_val > 0 then (noi / price_val) * 100 else 0);
                 piti = payment + (annual_property_tax + annual_insurance) / 12;
                 break_even = piti + annual_management / 12 + annual_maintenance / 12
                   + annual_capital_reserves / 12 + annual_vacancy / 12;
                 total_cash_invested = down_payment + (price_val * (in_closing_costs_pct i / 100));
                 coc = (if total_cash_invested > 0
                        then (cash_flow * 12) / total_cash_invested * 100 else 0)
             in Inr \<lparr> sc_monthly_payment = payment, sc_monthly_cash_flow = cash_flow,
                      sc_cap_rate = cap, sc_break_even_rent = break_even,
                      sc_needed = needed_numbers cap cash_flow break_even price_val,
                      sc_cash_on_cash = coc \<rparr>))"

subsection \<open>\<^verbatim>\<open>dash_app.py\<close>: the comparables step of \<^verbatim>\<open>scenario_outputs\<close>\<close>

text \<open>
  The comparables table is a pandas DataFrame: a list of column names and a list of rows,
  each row giving a value for every column. The columns the step computes with are
  numeric (the loader converts them with \<^verbatim>\<open>pd.to_numeric\<close> and drops missing
  values), so a row is a function from column names to reals; it is only ever read at
  names in \<open>df_columns\<close> or at the three sort columns the step adds.
\<close>

type_synonym row = "string \<Rightarrow> real"

record dataframe =
  df_columns :: "string list"
  df_rows :: "row list"

text \<open>The subject property; \<open>None\<close> is Python's \<^verbatim>\<open>None\<close> (an empty form field).\<close>

record subject =
  subj_zipcode :: "real option"
  subj_beds :: "real option"
  subj_baths :: "real option"
  subj_sqft :: "real option"
  subj_price :: "real option"

text \<open>
  \<^verbatim>\<open>'zipcode' if 'zipcode' in comps_data.columns else 'ZipCode' if ... else None\<close>:
  the first alias that is a column.
\<close>

fun resolve_col :: "string list \<Rightarrow> string list \<Rightarrow> string option" where
  "resolve_col [] cols = None"
| "resolve_col (a # aliases) cols = (if a \<in> set cols then Some a else resolve_col aliases cols)"

definition zip_col :: "dataframe \<Rightarrow> string option" where
  "zip_col df = resolve_col [''zipcode'', ''ZipCode''] (df_columns df)"

definition beds_col :: "dataframe \<Rightarrow> string option" where
  "beds_col df = resolve_col [''beds'', ''Bedrooms''] (df_columns df)"

definition baths_col :: "dataframe \<Rightarrow> string option" where
  "baths_col df = resolve_col [''baths'', ''Bathrooms''] (df_columns df)"

definition sqft_col :: "dataframe \<Rightarrow> string option" where
  "sqft_col df = resolve_col [''sqft'', ''FinishedSqft''] (df_columns df)"

definition price_col :: "dataframe \<Rightarrow> string option" where
  "price_col df = resolve_col [''price'', ''Sale_price''] (df_columns df)"

definition year_col :: "dataframe \<Rightarrow> string option" where
  "year_col df = resolve_col [''year_built'', ''Year_Built'', ''year''] (df_columns df)"

definition address_col :: "dataframe \<Rightarrow> string option" where
  "address_col df = resolve_col [''address'', ''Address''] (df_columns df)"

text \<open>
  \<^verbatim>\<open>np.percentile(values, q)\<close> with numpy's default linear interpolation, on a
  non-empty list.
\<close>

definition np_percentile :: "real list \<Rightarrow> real \<Rightarrow> real" where
  "np_percentile values q =
     (let s = sort values;
          n = length s;
          h = (q / 100) * real (n - 1);
          lo = nat \<lfloor>h\<rfloor>;
          hi = min (lo + 1) (n - 1)
      in s ! lo + (h - real lo) * (s ! hi - s ! lo))"

text \<open>
  The four selection filters. A filter is applied only when its column resolved and the
  subject has the value (for the zip code: a value that is true in Python, so neither
  \<^verbatim>\<open>None\<close> nor 0); the tests \<^verbatim>\<open>col in filtered.columns\<close> add nothing, since
  selecting rows keeps the columns.
\<close>

definition zip_ok :: "dataframe \<Rightarrow> subject \<Rightarrow> row \<Rightarrow> bool" where
  "zip_ok df s r =
     (case (zip_col df, subj_zipcode s) of
        (Some c, Some z) \<Rightarrow> (if z \<noteq> 0 then r c = z else True)
      | _ \<Rightarrow> True)"

definition beds_ok :: "dataframe \<Rightarrow> subject \<Rightarrow> row \<Rightarrow> bool" where
  "beds_ok df s r =
     (case (beds_col df, subj_beds s) of
        (Some c, Some beds) \<Rightarrow> r c \<ge> beds - 1 \<and> r c \<le> beds + 1
      | _ \<Rightarrow> True)"

definition baths_ok :: "dataframe \<Rightarrow> subject \<Rightarrow> row \<Rightarrow> bool" where
  "baths_ok df s r =
     (case (baths_col df, subj_baths s) of
        (Some c, Some baths) \<Rightarrow> r c \<ge> baths - 1 \<and> r c \<le> baths + 1
      | _ \<Rightarrow> True)"

definition sqft_ok :: "dataframe \<Rightarrow> subject \<Rightarrow> row \<Rightarrow> bool" where
  "sqft_ok df s r =
     (case (sqft_col df, subj_sqft s) of
        (Some c, Some sqft) \<Rightarrow> r c \<ge> sqft * 0.8 \<and> r c \<le> sqft * 1.2
      | _ \<Rightarrow> True)"

definition select_rows :: "dataframe \<Rightarrow> subject \<Rightarrow> row list" where
  "select_rows df s =
     filter (sqft_ok df s) (filter (baths_ok df s) (filter (beds_ok df s)
       (filter (zip_ok df s) (df_rows df))))"

text \<open>"Remove outliers": skipped when a column is missing or nothing is left.\<close>

definition remove_outliers :: "dataframe \<Rightarrow> row list \<Rightarrow> row list" where
  "remove_outliers df filtered =
     (case (price_col df, sqft_col df) of
        (Some pc, Some sc) \<Rightarrow>
          (if filtered \<noteq> [] then
             (let price_low = np_percentile (map (\<lambda>r. r pc) filtered) 1;
                  sqft_low = np_percentile (map (\<lambda>r. r sc) filtered) 1
              in filter (\<lambda>r. r pc \<ge> price_low \<and> r pc \<le> 800000 \<and> r sc \<ge> sqft_low \<and> r sc \<le> 6000)
                   filtered)
           else filtered)
      | _ \<Rightarrow> filtered)"

text \<open>The three sort columns, added to every remaining row in this order.\<close>

definition add_BedDiff :: "dataframe \<Rightarrow> subject \<Rightarrow> row \<Rightarrow> row" where
  "add_BedDiff df s r =
     (case (beds_col df, subj_beds s) of
        (Some c, Some beds) \<Rightarrow> r(''BedDiff'' := \<bar>r c - beds\<bar>)
      | _ \<Rightarrow> r(''BedDiff'' := 0))"

definition add_BathDiff :: "dataframe \<Rightarrow> subject \<Rightarrow> row \<Rightarrow> row" where
  "add_BathDiff df s r =
     (case (baths_col df, subj_baths s) of
        (Some c, Some baths) \<Rightarrow> r(''BathDiff'' := \<bar>r c - baths\<bar>)
      | _ \<Rightarrow> r(''BathDiff'' := 0))"

definition add_PriceDiff :: "dataframe \<Rightarrow> subject \<Rightarrow> row \<Rightarrow> row" where
  "add_PriceDiff df s r =
     (case (price_col df, subj_price s) of
        (Some c, Some price) \<Rightarrow> r(''PriceDiff'' := \<bar>r c - price\<bar>)
      | _ \<Rightarrow> r(''PriceDiff'' := 0))"

definition sort_cols :: "row \<Rightarrow> real \<times> real \<times> real" where
  "sort_cols r = (r ''BedDiff'', r ''BathDiff'', r ''PriceDiff'')"

text \<open>
  \<^verbatim>\<open>filtered.sort_values(by=['BedDiff', 'BathDiff', 'PriceDiff'],
  ascending=[True, True, True])\<close>: ascending lexicographic order of the three columns,
  rows with equal keys keeping their order.
\<close>

definition ranked_comps :: "dataframe \<Rightarrow> subject \<Rightarrow> row list" where
  "ranked_comps df s =
     (let filtered = remove_outliers df (select_rows df s);
          filtered = map (add_BedDiff df s) filtered;
          filtered = map (add_BathDiff df s) filtered;
          filtered = map (add_PriceDiff df s) filtered
      in if filtered \<noteq> [] then sort_key sort_cols filtered else filtered)"

text \<open>The ids of \<^verbatim>\<open>table_cols\<close>, in the order they are appended.\<close>

definition table_cols :: "dataframe \<Rightarrow> string list" where
  "table_cols df =
     List.map_filter (\<lambda>c. c)
       [address_col df, price_col df, sqft_col df, beds_col df, baths_col df, year_col df,
        zip_col df]"

text \<open>
  \<^verbatim>\<open>table_data\<close>: either the records of the ranked rows, restricted to the
  table columns, or a single row of text.
\<close>

datatype table_data = Records "string list" "row list" | Message "(string \<times> string) list"

definition no_comps_message :: "string list \<Rightarrow> table_data" where
  "no_comps_message cols =
     (if cols \<noteq> [] then Message (map (\<lambda>c. (c, ''No comparable properties found.'')) cols)
      else Message [(''Notice'', ''No comparable properties found.'')])"

text \<open>The handler of the \<^verbatim>\<open>try\<close> block: \<^verbatim>\<open>[{'Notice': f'Comps error: {e}'}]\<close>.\<close>

definition comps_error_message :: "string \<Rightarrow> table_data" where
  "comps_error_message e = Message [(''Notice'', ''Comps error: '' @ e)]"

text \<open>
  The comparables step. With numeric columns nothing inside the \<^verbatim>\<open>try\<close> block
  raises, so the handler's branch is not taken and the step is a total function.
\<close>

definition comps_step :: "dataframe \<Rightarrow> subject \<Rightarrow> table_data" where
  "comps_step df s =
     (let filtered = ranked_comps df s;
          cols = table_cols df
      in if filtered \<noteq> [] then Records cols filtered else no_comps_message cols)"

subsection \<open>Quantities named by the specification\<close>

text \<open>
  The sum of the rent-proportional expense fractions: the fixed 8% management fee, the
  maintenance and capital-reserves rates, and the vacancy fraction (months out of twelve
  in "months" mode, the vacancy rate otherwise), as \<^verbatim>\<open>calculate_metrics\<close> applies
  them to the rent.
\<close>

definition rent_expense_fraction :: "assumptions \<Rightarrow> real" where
  "rent_expense_fraction a =
     0.08 + maintenance_rate a / 100 + capital_reserves_rate a / 100
     + (case (vacancy_mode a, vacancy_months a) of
          (Months, Some months) \<Rightarrow> months / 12
        | _ \<Rightarrow> vacancy_rate a / 100)"

text \<open>The same sum for \<^verbatim>\<open>scenario_outputs\<close>, which has the percentage mode only.\<close>

definition scenario_rent_expense_fraction :: "scenario_inputs \<Rightarrow> real" where
  "scenario_rent_expense_fraction i =
     0.08 + in_maintenance_rate i / 100 + in_capital_reserves_rate i / 100
     + in_vacancy_rate i / 100"

text \<open>
  The specification's first-year total ROI:
  \<open>(annual_cash_flow + principal_paid_year_1 + price \<times> 0.03) / total_upfront_cost \<times> 100\<close>.
\<close>

definition spec_total_roi_pct :: "real \<Rightarrow> real \<Rightarrow> real \<Rightarrow> real \<Rightarrow> real" where
  "spec_total_roi_pct annual_cash_flow principal_paid_year_1 price upfront =
     (annual_cash_flow + principal_paid_year_1 + price * 0.03) / upfront * 100"

text \<open>
  The specification's minimum rent for the cap-rate threshold:
  \<open>(threshold_cap_rate/100 \<times> price + total_annual_expense_rate_fraction \<times> price) / 12\<close>.
\<close>

definition spec_min_rent_for_cap_rate :: "real \<Rightarrow> real \<Rightarrow> real \<Rightarrow> real" where
  "spec_min_rent_for_cap_rate threshold_cap_rate price expense_rate_fraction =
     (threshold_cap_rate / 100 * price + expense_rate_fraction * price) / 12"

text \<open>
  The specification's ranking key of a comparable, \<open>(|beds diff|, |baths diff|,
  |price diff|)\<close> from the subject, read off the row's own columns, and the
  lexicographic order on such triples, written out.
\<close>

definition abs_diffs ::
  "string \<Rightarrow> real \<Rightarrow> string \<Rightarrow> real \<Rightarrow> string \<Rightarrow> real \<Rightarrow> row \<Rightarrow> real \<times> real \<times> real" where
  "abs_diffs bc beds bac baths pc price r =
     (\<bar>r bc - beds\<bar>, \<bar>r bac - baths\<bar>, \<bar>r pc - price\<bar>)"

fun lex3_le :: "real \<times> real \<times> real \<Rightarrow> real \<times> real \<times> real \<Rightarrow> bool" where
  "lex3_le (a, b, c) (a', b', c') =
     (a < a' \<or> (a = a' \<and> (b < b' \<or> (b = b' \<and> c \<le> c'))))"

subsection \<open>Example inputs\<close>

text \<open>
  A cash purchase in the sense of the payment formula (interest rate 0, so the payment
  is 0): price 120000, rent 1000, property tax 1%, maintenance and reserves 1% each.
\<close>

definition example_assumptions :: assumptions where
  "example_assumptions =
     \<lparr> down_payment_pct = 20, interest_rate = 0, loan_term = 30, estimated_rent = 1000,
       property_tax_rate = 1, insurance_rate = 0, maintenance_rate = 1,
       capital_reserves_rate = 1, vacancy_rate = 0, vacancy_mode = Percent,
       vacancy_months = None, closing_costs_pct = 3 \<rparr>"

definition example_scenario_inputs :: scenario_inputs where
  "example_scenario_inputs =
     \<lparr> in_price = Some 120000, in_down_payment_pct = 20, in_interest_rate = 0,
       in_loan_term = 30, in_property_tax_rate = 1, in_insurance_rate = 0,
       in_maintenance_rate = 1, in_capital_reserves_rate = 1, in_vacancy_rate = 0,
       in_closing_costs_pct = 3 \<rparr>"

text \<open>The request \<^verbatim>\<open>{"address": ..., "price": 200000}\<close> with every default.\<close>

definition example_request :: api_request where
  "example_request =
     \<lparr> req_price = 200000, downPaymentPct = 20, interestRate = 5, loanTerm = 30,
       propertyTaxRate = 3, insuranceRate = 0.5, maintenanceRate = 1,
       capitalReservesRate = 1, vacancyRate = 5, closingCostsPct = 3 \<rparr>"

text \<open>
  Three sales: one with four bedrooms at exactly the subject's price, and two with the
  subject's three bedrooms, the dearer one listed first.
\<close>

definition example_row_c :: row where
  "example_row_c c =
     (if c = ''beds'' then 4 else if c = ''baths'' then 2 else if c = ''price'' then 200000 else 0)"

definition example_row_a :: row where
  "example_row_a c =
     (if c = ''beds'' then 3 else if c = ''baths'' then 2 else if c = ''price'' then 250000 else 0)"

definition example_row_b :: row where
  "example_row_b c =
     (if c = ''beds'' then 3 else if c = ''baths'' then 2 else if c = ''price'' then 210000 else 0)"

definition example_comps :: dataframe where
  "example_comps =
     \<lparr> df_columns = [''price'', ''beds'', ''baths''],
       df_rows = [example_row_c, example_row_a, example_row_b] \<rparr>"

definition example_subject :: subject where
  "example_subject =
     \<lparr> subj_zipcode = None, subj_beds = Some 3, subj_baths = Some 2, subj_sqft = Some 1500,
       subj_price = Some 200000 \<rparr>"

text \<open>A table without a bedrooms column, and a table none of whose rows is near the subject.\<close>

definition example_comps_no_beds :: dataframe where
  "example_comps_no_beds =
     \<lparr> df_columns = [''price'', ''baths''], df_rows = [example_row_a] \<rparr>"

definition example_comps_far :: dataframe where
  "example_comps_far =
     \<lparr> df_columns = [''price'', ''beds'', ''baths''], df_rows = [example_row_a] \<rparr>"

definition example_subject_far :: subject where
  "example_subject_far =
     \<lparr> subj_zipcode = None, subj_beds = Some 6, subj_baths = Some 2, subj_sqft = Some 1500,
       subj_price = Some 200000 \<rparr>"

section \<open>Properties\<close>

subsection \<open>The payment formula\<close>

lemma monthly_payment_formula:
  assumes "0 < P" "0 < r" "0 < n"
  shows "monthly_payment P r n = Inr (P * r * (1 + r) ^ nat n / ((1 + r) ^ nat n - 1))"
proof -
  have "1 < (1 + r) ^ nat n" using assms by simp
  then have "(1 + r) ^ nat n \<noteq> 1" by simp
  then show ?thesis using assms by (simp add: monthly_payment_def py_pow_def)
qed

lemma monthly_payment_zero: "P \<le> 0 \<or> r \<le> 0 \<Longrightarrow> monthly_payment P r n = Inr 0"
  by (auto simp: monthly_payment_def)

text \<open>With a term of zero years the denominator is zero and the expression raises.\<close>

lemma monthly_payment_raises:
  "0 < P \<Longrightarrow> 0 < r \<Longrightarrow> monthly_payment P r 0 = Inl ZeroDivisionError"
  by (simp add: monthly_payment_def py_pow_def)

text \<open>
  Bounds on \<open>1.005 ^ 360\<close> by interval arithmetic along \<open>360 = 5 \<times> 3 \<times> 3 \<times> 2 \<times> 2 \<times> 2\<close>,
  each step rounded outwards to ten decimals.
\<close>

lemma pow_bounds:
  fixes x :: real
  assumes "lo \<le> x \<and> x \<le> hi" "0 \<le> lo" "lo' \<le> lo ^ p" "hi ^ p \<le> hi'"
  shows "lo' \<le> x ^ p \<and> x ^ p \<le> hi'"
proof -
  have "lo ^ p \<le> x ^ p" using assms by (intro power_mono) auto
  moreover have "x ^ p \<le> hi ^ p" using assms by (intro power_mono) auto
  ultimately show ?thesis using assms by linarith
qed

lemma pow360_bounds:
  fixes a :: real
  assumes b5: "1.0252512531 \<le> a ^ 5 \<and> a ^ 5 \<le> 1.0252512532"
  shows "6.0225 < a ^ 360 \<and> a ^ 360 < 6.0226"
proof -
  have b15: "1.0776827374 \<le> (a ^ 5) ^ 3 \<and> (a ^ 5) ^ 3 \<le> 1.0776827379"
    by (rule pow_bounds[OF b5]) (simp_all add: power_divide)
  have b45: "1.2516208201 \<le> ((a ^ 5) ^ 3) ^ 3 \<and> ((a ^ 5) ^ 3) ^ 3 \<le> 1.2516208219"
    by (rule pow_bounds[OF b15]) (simp_all add: power_divide)
  have b90: "1.5665546773 \<le> (((a ^ 5) ^ 3) ^ 3) ^ 2 \<and> (((a ^ 5) ^ 3) ^ 3) ^ 2 \<le> 1.5665546819"
    by (rule pow_bounds[OF b45]) (simp_all add: power_divide)
  have b180: "2.4540935569 \<le> ((((a ^ 5) ^ 3) ^ 3) ^ 2) ^ 2
      \<and> ((((a ^ 5) ^ 3) ^ 3) ^ 2) ^ 2 \<le> 2.4540935714"
    by (rule pow_bounds[OF b90]) (simp_all add: power_divide)
  have b360: "6.022575186 \<le> (((((a ^ 5) ^ 3) ^ 3) ^ 2) ^ 2) ^ 2
      \<and> (((((a ^ 5) ^ 3) ^ 3) ^ 2) ^ 2) ^ 2 \<le> 6.0225752572"
    by (rule pow_bounds[OF b180]) (simp_all add: power_divide)
  have "(((((a ^ 5) ^ 3) ^ 3) ^ 2) ^ 2) ^ 2 = a ^ 360"
    by (simp only: power_mult [symmetric]) simp
  with b360 show ?thesis by simp
qed

lemma pow360_at_half_percent:
  "6.0225 < (201 / 200 :: real) ^ 360 \<and> (201 / 200 :: real) ^ 360 < 6.0226"
  by (rule pow360_bounds) (simp add: power_divide)

lemma payment_bounds:
  fixes q :: real
  assumes "6.0225 < q \<and> q < 6.0226"
  shows "1438.92 < 240000 * (5 / 1000 * q) / (q - 1)"
    and "240000 * (5 / 1000 * q) / (q - 1) < 1438.93"
proof -
  define d where "d = 1200 / (q - 1)"
  have pos: "0 < q - 1" using assms by simp
  have eq: "240000 * (5 / 1000 * q) / (q - 1) = 1200 + d"
    unfolding d_def using pos by (simp add: field_simps)
  have "d < 238.93" unfolding d_def using pos assms by (simp add: field_simps)
  then show "240000 * (5 / 1000 * q) / (q - 1) < 1438.93" unfolding eq by simp
  have "238.92 < d" unfolding d_def using pos assms by (simp add: field_simps)
  then show "1438.92 < 240000 * (5 / 1000 * q) / (q - 1)" unfolding eq by simp
qed

lemma payment_240000:
  "monthly_payment 240000 (6 / 100 / 12) (30 * 12)
     = Inr (240000 * (5 / 1000 * (201 / 200) ^ 360) / ((201 / 200) ^ 360 - 1))"
  using pow360_at_half_percent by (simp add: monthly_payment_def py_pow_def)

text \<open>
  C2 (as the code has it). For a positive loan amount \<open>P\<close>, a positive monthly rate \<open>r\<close>
  and a term of \<open>term_years > 0\<close> years, the monthly payment is
  \<open>P\<cdot>r\<cdot>(1+r)^n / ((1+r)^n - 1)\<close> with \<open>n = term_years \<times> 12\<close>; it is exactly 0 when
  the loan amount or the rate is not positive. For a principal of 240000 at 6% over
  30 years the payment lies strictly between 1438.92 and 1438.93.
\<close>

theorem monthly_payment_annuity:
  "(0 < P \<and> 0 < r \<and> 0 < term_years \<longrightarrow>
      monthly_payment P r (term_years * 12)
        = Inr (P * r * (1 + r) ^ nat (term_years * 12) / ((1 + r) ^ nat (term_years * 12) - 1)))
   \<and> (P \<le> 0 \<or> r \<le> 0 \<longrightarrow> monthly_payment P r (term_years * 12) = Inr 0)
   \<and> (\<exists>m. monthly_payment 240000 (6 / 100 / 12) (30 * 12) = Inr m \<and> \<bar>m - 1438.92\<bar> \<le> 0.01)"
proof (intro conjI impI)
  assume "0 < P \<and> 0 < r \<and> 0 < term_years"
  then show "monthly_payment P r (term_years * 12)
      = Inr (P * r * (1 + r) ^ nat (term_years * 12) / ((1 + r) ^ nat (term_years * 12) - 1))"
    by (intro monthly_payment_formula) auto
next
  assume "P \<le> 0 \<or> r \<le> 0"
  then show "monthly_payment P r (term_years * 12) = Inr 0"
    by (rule monthly_payment_zero)
next
  let ?m = "240000 * (5 / 1000 * (201 / 200) ^ 360) / ((201 / 200) ^ 360 - 1) :: real"
  have "1438.92 < ?m" "?m < 1438.93"
    using payment_bounds[OF pow360_at_half_percent] by blast+
  then have "\<bar>?m - 1438.92\<bar> \<le> 0.01" by (simp only: abs_le_iff) linarith
  with payment_240000
  show "\<exists>m. monthly_payment 240000 (6 / 100 / 12) (30 * 12) = Inr m \<and> \<bar>m - 1438.92\<bar> \<le> 0.01"
    by blast
qed

theorem monthly_payment_annuity_witness:
  "0 < (1200 :: real) \<and> 0 < (1 / 100 :: real) \<and> 0 < (1 :: int)
   \<and> monthly_payment 1200 (1 / 100) (1 * 12)
       = Inr (1200 * (1 / 100) * (1 + 1 / 100) ^ nat (1 * 12) / ((1 + 1 / 100) ^ nat (1 * 12) - 1))
   \<and> ((0 :: real) \<le> 0 \<or> (1 / 100 :: real) \<le> 0)
   \<and> monthly_payment 0 (1 / 100) (1 * 12) = Inr 0"
  using monthly_payment_annuity [of 1200 "1 / 100" 1] monthly_payment_annuity [of 0 "1 / 100" 1]
  by simp

theorem payment_240000_counterexample:
  "\<not> isl (monthly_payment 240000 (6 / 100 / 12) (30 * 12))
   \<and> \<not> \<bar>projr (monthly_payment 240000 (6 / 100 / 12) (30 * 12)) - 1439.32\<bar> \<le> 0.01"
proof -
  let ?m = "240000 * (5 / 1000 * (201 / 200) ^ 360) / ((201 / 200) ^ 360 - 1) :: real"
  have "?m < 1438.93"
    using payment_bounds[OF pow360_at_half_percent] by blast
  then have "\<not> \<bar>?m - 1439.32\<bar> \<le> 0.01" by (simp only: abs_le_iff) linarith
  then show ?thesis by (simp only: payment_240000 sum.sel sum.disc) simp
qed

subsection \<open>Cash flow, break-even rent, cap rate and payback period\<close>

lemma calculate_metrics_Inr:
  assumes "calculate_metrics price a mo = Inr m"
  shows "\<exists>pay. m = metrics_after_payment price a mo (price * (down_payment_pct a / 100))
           (price - price * (down_payment_pct a / 100)) (interest_rate a / 100 / 12) pay"
  using assms by (auto simp: calculate_metrics_def Let_def split: sum.splits)

lemma calculate_metrics_rent:
  assumes "calculate_metrics price a mo = Inr m"
  shows "\<exists>pay. m = metrics_after_payment price a mo (price * (down_payment_pct a / 100))
           (price - price * (down_payment_pct a / 100)) (interest_rate a / 100 / 12) pay
         \<and> (\<forall>rent. calculate_metrics price (a\<lparr>estimated_rent := rent\<rparr>) mo
              = Inr (metrics_after_payment price (a\<lparr>estimated_rent := rent\<rparr>) mo
                  (price * (down_payment_pct a / 100))
                  (price - price * (down_payment_pct a / 100)) (interest_rate a / 100 / 12) pay))"
  using assms by (auto simp: calculate_metrics_def Let_def split: sum.splits)

lemma cash_flow_no_overrides:
  "monthly_cash_flow (metrics_after_payment price a no_overrides dp la mr pay) =
     estimated_rent a * (1 - rent_expense_fraction a) - pay
       - (price * (property_tax_rate a / 100) + price * (insurance_rate a / 100)) / 12"
  by (simp add: metrics_after_payment_def no_overrides_def rent_expense_fraction_def Let_def
      algebra_simps split: vacancy_mode.splits option.splits)

lemma break_even_no_overrides:
  "break_even_rent (metrics_after_payment price a no_overrides dp la mr pay) =
     pay + (price * (property_tax_rate a / 100) + price * (insurance_rate a / 100)) / 12
       + estimated_rent a * rent_expense_fraction a"
  by (simp add: metrics_after_payment_def no_overrides_def rent_expense_fraction_def Let_def
      algebra_simps split: vacancy_mode.splits option.splits)

lemma rent_expense_fraction_rent [simp]:
  "rent_expense_fraction (a\<lparr>estimated_rent := rent\<rparr>) = rent_expense_fraction a"
  by (simp add: rent_expense_fraction_def split: vacancy_mode.splits option.splits)

lemma scenario_outputs_Inr:
  assumes "scenario_outputs i rent = Inr sc"
  shows "\<exists>pay. (\<forall>rent'. \<exists>sc'. scenario_outputs i rent' = Inr sc'
       \<and> sc_monthly_cash_flow sc' = rent' * (1 - scenario_rent_expense_fraction i) - pay
           - ((case in_price i of Some p \<Rightarrow> p | None \<Rightarrow> 0) * (in_property_tax_rate i / 100)
              + (case in_price i of Some p \<Rightarrow> p | None \<Rightarrow> 0) * (in_insurance_rate i / 100)) / 12
       \<and> sc_break_even_rent sc' = pay
           + ((case in_price i of Some p \<Rightarrow> p | None \<Rightarrow> 0) * (in_property_tax_rate i / 100)
              + (case in_price i of Some p \<Rightarrow> p | None \<Rightarrow> 0) * (in_insurance_rate i / 100)) / 12
           + rent' * scenario_rent_expense_fraction i)"
  using assms
  by (auto simp: scenario_outputs_def scenario_rent_expense_fraction_def Let_def algebra_simps
      split: sum.splits)

lemma round_trip_algebra:
  fixes R k pay T :: real
  assumes "cf = R * (1 - k) - pay - T" "be = pay + T + R * k" "cf' = be * (1 - k) - pay - T"
  shows "cf = R - be \<and> cf' = k * cf"
  unfolding assms(3) assms(2) assms(1) by (simp add: algebra_simps)

text \<open>
  C1 (as the code has it). Without manual overrides, the monthly cash flow for a rent \<open>R\<close>
  is \<open>R - break_even_rent\<close>, and feeding \<open>break_even_rent\<close> back in as the rent gives
  a monthly cash flow of \<open>k\<close> times the original cash flow, where \<open>k\<close> is the sum of
  the rent-proportional expense fractions; so the round trip gives 0 only when \<open>k = 0\<close>
  or the original cash flow is already 0. This holds for \<^verbatim>\<open>calculate_metrics\<close> and
  for \<^verbatim>\<open>scenario_outputs\<close>.
\<close>

theorem break_even_round_trip:
  "(calculate_metrics price a no_overrides = Inr m
      \<and> calculate_metrics price (a\<lparr>estimated_rent := break_even_rent m\<rparr>) no_overrides = Inr m'
    \<longrightarrow> monthly_cash_flow m = estimated_rent a - break_even_rent m
      \<and> monthly_cash_flow m' = rent_expense_fraction a * monthly_cash_flow m)
   \<and> (scenario_outputs i rent = Inr sc \<and> scenario_outputs i (sc_break_even_rent sc) = Inr sc'
    \<longrightarrow> sc_monthly_cash_flow sc = rent - sc_break_even_rent sc
      \<and> sc_monthly_cash_flow sc' = scenario_rent_expense_fraction i * sc_monthly_cash_flow sc)"
proof (intro conjI impI)
  assume h: "calculate_metrics price a no_overrides = Inr m
      \<and> calculate_metrics price (a\<lparr>estimated_rent := break_even_rent m\<rparr>) no_overrides = Inr m'"
  from calculate_metrics_rent[of price a no_overrides m] h obtain pay where
    m: "m = metrics_after_payment price a no_overrides (price * (down_payment_pct a / 100))
           (price - price * (down_payment_pct a / 100)) (interest_rate a / 100 / 12) pay"
    and m': "m' = metrics_after_payment price (a\<lparr>estimated_rent := break_even_rent m\<rparr>) no_overrides
           (price * (down_payment_pct a / 100))
           (price - price * (down_payment_pct a / 100)) (interest_rate a / 100 / 12) pay"
    by auto
  have f1: "monthly_cash_flow m = estimated_rent a * (1 - rent_expense_fraction a) - pay
       - (price * (property_tax_rate a / 100) + price * (insurance_rate a / 100)) / 12"
    unfolding m by (rule cash_flow_no_overrides)
  have f2: "break_even_rent m = pay
       + (price * (property_tax_rate a / 100) + price * (insurance_rate a / 100)) / 12
       + estimated_rent a * rent_expense_fraction a"
    unfolding m by (rule break_even_no_overrides)
  have f3: "monthly_cash_flow m' = break_even_rent m * (1 - rent_expense_fraction a) - pay
       - (price * (property_tax_rate a / 100) + price * (insurance_rate a / 100)) / 12"
    by (subst m') (simp add: cash_flow_no_overrides)
  from round_trip_algebra[OF f1 f2 f3]
  show "monthly_cash_flow m = estimated_rent a - break_even_rent m"
    and "monthly_cash_flow m' = rent_expense_fraction a * monthly_cash_flow m"
    by blast+
next
  assume h: "scenario_outputs i rent = Inr sc \<and> scenario_outputs i (sc_break_even_rent sc) = Inr sc'"
  let ?T = "((case in_price i of Some p \<Rightarrow> p | None \<Rightarrow> 0) * (in_property_tax_rate i / 100)
              + (case in_price i of Some p \<Rightarrow> p | None \<Rightarrow> 0) * (in_insurance_rate i / 100)) / 12"
  let ?k = "scenario_rent_expense_fraction i"
  from scenario_outputs_Inr[of i rent sc] h obtain pay where
    all: "\<And>rent'. \<exists>sc'. scenario_outputs i rent' = Inr sc'
       \<and> sc_monthly_cash_flow sc' = rent' * (1 - ?k) - pay - ?T
       \<and> sc_break_even_rent sc' = pay + ?T + rent' * ?k"
    by blast
  from all[of rent] h have f1: "sc_monthly_cash_flow sc = rent * (1 - ?k) - pay - ?T"
    and f2: "sc_break_even_rent sc = pay + ?T + rent * ?k" by auto
  from all[of "sc_break_even_rent sc"] h
  have f3: "sc_monthly_cash_flow sc' = sc_break_even_rent sc * (1 - ?k) - pay - ?T" by auto
  from round_trip_algebra[OF f1 f2 f3]
  show "sc_monthly_cash_flow sc = rent - sc_break_even_rent sc"
    and "sc_monthly_cash_flow sc' = scenario_rent_expense_fraction i * sc_monthly_cash_flow sc"
    by blast+
qed

lemma example_metrics:
  "calculate_metrics 120000 (example_assumptions\<lparr>estimated_rent := rent\<rparr>) no_overrides
     = Inr (metrics_after_payment 120000 (example_assumptions\<lparr>estimated_rent := rent\<rparr>)
         no_overrides 24000 96000 0 0)"
  by (simp add: calculate_metrics_def example_assumptions_def monthly_payment_def)

theorem break_even_round_trip_counterexample:
  "map_sum id break_even_rent (calculate_metrics 120000 example_assumptions no_overrides) = Inr 200
   \<and> map_sum id monthly_cash_flow
       (calculate_metrics 120000 (example_assumptions\<lparr>estimated_rent := 200\<rparr>) no_overrides) = Inr 80"
  by (simp add: calculate_metrics_def metrics_after_payment_def monthly_payment_def
      example_assumptions_def no_overrides_def Let_def)

lemma example_scenario:
  "\<exists>sc. scenario_outputs example_scenario_inputs rent = Inr sc"
  by (simp add: scenario_outputs_def example_scenario_inputs_def monthly_payment_def Let_def)

theorem break_even_round_trip_witness:
  "(\<exists>m m'. calculate_metrics 120000 example_assumptions no_overrides = Inr m
     \<and> calculate_metrics 120000 (example_assumptions\<lparr>estimated_rent := break_even_rent m\<rparr>)
          no_overrides = Inr m'
     \<and> monthly_cash_flow m = estimated_rent example_assumptions - break_even_rent m
     \<and> monthly_cash_flow m' = rent_expense_fraction example_assumptions * monthly_cash_flow m)
   \<and> (\<exists>sc sc'. scenario_outputs example_scenario_inputs 1000 = Inr sc
     \<and> scenario_outputs example_scenario_inputs (sc_break_even_rent sc) = Inr sc'
     \<and> sc_monthly_cash_flow sc = 1000 - sc_break_even_rent sc
     \<and> sc_monthly_cash_flow sc'
         = scenario_rent_expense_fraction example_scenario_inputs * sc_monthly_cash_flow sc)"
proof
  have "example_assumptions = example_assumptions\<lparr>estimated_rent := 1000\<rparr>"
    by (simp add: example_assumptions_def)
  then obtain m where m: "calculate_metrics 120000 example_assumptions no_overrides = Inr m"
    using example_metrics[of 1000] by simp
  obtain m' where m': "calculate_metrics 120000
      (example_assumptions\<lparr>estimated_rent := break_even_rent m\<rparr>) no_overrides = Inr m'"
    using example_metrics[of "break_even_rent m"] by simp
  from break_even_round_trip[where price = 120000 and a = example_assumptions and m = m and m' = m'] m m'
  show "\<exists>m m'. calculate_metrics 120000 example_assumptions no_overrides = Inr m
     \<and> calculate_metrics 120000 (example_assumptions\<lparr>estimated_rent := break_even_rent m\<rparr>)
          no_overrides = Inr m'
     \<and> monthly_cash_flow m = estimated_rent example_assumptions - break_even_rent m
     \<and> monthly_cash_flow m' = rent_expense_fraction example_assumptions * monthly_cash_flow m"
    by blast
next
  obtain sc where sc: "scenario_outputs example_scenario_inputs 1000 = Inr sc"
    using example_scenario[of 1000] by blast
  obtain sc' where sc': "scenario_outputs example_scenario_inputs (sc_break_even_rent sc) = Inr sc'"
    using example_scenario[of "sc_break_even_rent sc"] by blast
  from break_even_round_trip[where i = example_scenario_inputs and rent = 1000 and sc = sc and sc' = sc'] sc sc'
  show "\<exists>sc sc'. scenario_outputs example_scenario_inputs 1000 = Inr sc
     \<and> scenario_outputs example_scenario_inputs (sc_break_even_rent sc) = Inr sc'
     \<and> sc_monthly_cash_flow sc = 1000 - sc_break_even_rent sc
     \<and> sc_monthly_cash_flow sc'
         = scenario_rent_expense_fraction example_scenario_inputs * sc_monthly_cash_flow sc"
    by blast
qed

lemma metrics_after_payment_cap_rate:
  "cap_rate (metrics_after_payment price
       (a\<lparr>down_payment_pct := d, interest_rate := ir, loan_term := t\<rparr>) mo dp' la' mr' pay')
     = cap_rate (metrics_after_payment price a mo dp la mr pay)"
  by (simp add: metrics_after_payment_def Let_def split: vacancy_mode.splits option.splits)

text \<open>
  C7. The cap rate is invariant under the financing assumptions: changing
  \<^verbatim>\<open>down_payment_pct\<close>, \<^verbatim>\<open>interest_rate\<close> and \<^verbatim>\<open>loan_term\<close> (and with them
  the mortgage payment) leaves \<^verbatim>\<open>cap_rate\<close> unchanged, in \<^verbatim>\<open>calculate_metrics\<close>
  and in \<^verbatim>\<open>scenario_outputs\<close>.
\<close>

theorem cap_rate_financing_invariant:
  "(calculate_metrics price a mo = Inr m
      \<and> calculate_metrics price
           (a\<lparr>down_payment_pct := d, interest_rate := ir, loan_term := t\<rparr>) mo = Inr m'
    \<longrightarrow> cap_rate m' = cap_rate m)
   \<and> (scenario_outputs i rent = Inr sc
      \<and> scenario_outputs
           (i\<lparr>in_down_payment_pct := d, in_interest_rate := ir, in_loan_term := t\<rparr>) rent = Inr sc'
    \<longrightarrow> sc_cap_rate sc' = sc_cap_rate sc)"
proof (intro conjI impI)
  assume h: "calculate_metrics price a mo = Inr m
      \<and> calculate_metrics price
           (a\<lparr>down_payment_pct := d, interest_rate := ir, loan_term := t\<rparr>) mo = Inr m'"
  from h calculate_metrics_Inr[of price a mo m] obtain pay where
    m: "m = metrics_after_payment price a mo (price * (down_payment_pct a / 100))
           (price - price * (down_payment_pct a / 100)) (interest_rate a / 100 / 12) pay"
    by blast
  from h calculate_metrics_Inr[of price
      "a\<lparr>down_payment_pct := d, interest_rate := ir, loan_term := t\<rparr>" mo m'] obtain pay' where
    m': "m' = metrics_after_payment price
           (a\<lparr>down_payment_pct := d, interest_rate := ir, loan_term := t\<rparr>) mo
           (price * (d / 100)) (price - price * (d / 100)) (ir / 100 / 12) pay'"
    by auto
  show "cap_rate m' = cap_rate m"
    unfolding m m' by (rule metrics_after_payment_cap_rate)
next
  assume "scenario_outputs i rent = Inr sc
      \<and> scenario_outputs
           (i\<lparr>in_down_payment_pct := d, in_interest_rate := ir, in_loan_term := t\<rparr>) rent = Inr sc'"
  then show "sc_cap_rate sc' = sc_cap_rate sc"
    by (auto simp: scenario_outputs_def Let_def split: sum.splits)
qed

text \<open>
  C10. With price, financing and expense rates fixed and no manual overrides, the monthly
  cash flow is strictly increasing in the monthly rent whenever the rent-proportional
  expense fractions sum to less than 1, in \<^verbatim>\<open>calculate_metrics\<close> and in
  \<^verbatim>\<open>scenario_outputs\<close>.
\<close>

theorem cash_flow_increasing_in_rent:
  "(rent_expense_fraction a < 1 \<and> rent_lo < rent_hi
      \<and> calculate_metrics price (a\<lparr>estimated_rent := rent_lo\<rparr>) no_overrides = Inr m_lo
      \<and> calculate_metrics price (a\<lparr>estimated_rent := rent_hi\<rparr>) no_overrides = Inr m_hi
    \<longrightarrow> monthly_cash_flow m_lo < monthly_cash_flow m_hi)
   \<and> (scenario_rent_expense_fraction i < 1 \<and> rent_lo < rent_hi
      \<and> scenario_outputs i rent_lo = Inr sc_lo \<and> scenario_outputs i rent_hi = Inr sc_hi
    \<longrightarrow> sc_monthly_cash_flow sc_lo < sc_monthly_cash_flow sc_hi)"
proof (intro conjI impI)
  assume h: "rent_expense_fraction a < 1 \<and> rent_lo < rent_hi
      \<and> calculate_metrics price (a\<lparr>estimated_rent := rent_lo\<rparr>) no_overrides = Inr m_lo
      \<and> calculate_metrics price (a\<lparr>estimated_rent := rent_hi\<rparr>) no_overrides = Inr m_hi"
  let ?T = "(price * (property_tax_rate a / 100) + price * (insurance_rate a / 100)) / 12"
  from h calculate_metrics_rent[of price "a\<lparr>estimated_rent := rent_lo\<rparr>" no_overrides m_lo]
  obtain pay where
    m_lo: "m_lo = metrics_after_payment price (a\<lparr>estimated_rent := rent_lo\<rparr>) no_overrides
           (price * (down_payment_pct a / 100))
           (price - price * (down_payment_pct a / 100)) (interest_rate a / 100 / 12) pay"
    and m_hi: "m_hi = metrics_after_payment price (a\<lparr>estimated_rent := rent_hi\<rparr>) no_overrides
           (price * (down_payment_pct a / 100))
           (price - price * (down_payment_pct a / 100)) (interest_rate a / 100 / 12) pay"
    by auto
  have c1: "monthly_cash_flow m_lo = rent_lo * (1 - rent_expense_fraction a) - pay - ?T"
    by (subst m_lo) (simp add: cash_flow_no_overrides)
  have c2: "monthly_cash_flow m_hi = rent_hi * (1 - rent_expense_fraction a) - pay - ?T"
    by (subst m_hi) (simp add: cash_flow_no_overrides)
  have "rent_lo * (1 - rent_expense_fraction a) < rent_hi * (1 - rent_expense_fraction a)"
    using h by (intro mult_strict_right_mono) auto
  then show "monthly_cash_flow m_lo < monthly_cash_flow m_hi"
    unfolding c1 c2 by simp
next
  assume h: "scenario_rent_expense_fraction i < 1 \<and> rent_lo < rent_hi
      \<and> scenario_outputs i rent_lo = Inr sc_lo \<and> scenario_outputs i rent_hi = Inr sc_hi"
  let ?T = "((case in_price i of Some p \<Rightarrow> p | None \<Rightarrow> 0) * (in_property_tax_rate i / 100)
    + (case in_price i of Some p \<Rightarrow> p | None \<Rightarrow> 0) * (in_insurance_rate i / 100)) / 12"
  let ?k = "scenario_rent_expense_fraction i"
  from scenario_outputs_Inr[of i rent_lo sc_lo] h obtain pay where
    all: "\<And>rent'. \<exists>sc'. scenario_outputs i rent' = Inr sc'
       \<and> sc_monthly_cash_flow sc' = rent' * (1 - ?k) - pay - ?T
       \<and> sc_break_even_rent sc' = pay + ?T + rent' * ?k"
    by blast
  from all[of rent_lo] h have c1: "sc_monthly_cash_flow sc_lo = rent_lo * (1 - ?k) - pay - ?T" by auto
  from all[of rent_hi] h have c2: "sc_monthly_cash_flow sc_hi = rent_hi * (1 - ?k) - pay - ?T" by auto
  have "rent_lo * (1 - ?k) < rent_hi * (1 - ?k)"
    using h by (intro mult_strict_right_mono) auto
  then show "sc_monthly_cash_flow sc_lo < sc_monthly_cash_flow sc_hi"
    unfolding c1 c2 by simp
qed

lemma monthly_payment_total: "0 < n \<Longrightarrow> \<exists>pay. monthly_payment P r n = Inr pay"
  using monthly_payment_formula[of P r n] monthly_payment_zero[of P r n]
  by (cases "0 < P \<and> 0 < r") auto

lemma calculate_metrics_total:
  "0 < loan_term a \<Longrightarrow> \<exists>m. calculate_metrics price a mo = Inr m"
  using monthly_payment_total[of "loan_term a * 12" "price - price * (down_payment_pct a / 100)"
      "interest_rate a / 100 / 12"]
  by (auto simp: calculate_metrics_def Let_def)

lemma scenario_outputs_total:
  "0 < in_loan_term i \<Longrightarrow> \<exists>sc. scenario_outputs i rent = Inr sc"
  using monthly_payment_total[of "in_loan_term i * 12"]
  by (auto simp: scenario_outputs_def Let_def split: sum.splits) (metis sum.distinct(1))

lemma analyze_property_total:
  "0 < loanTerm req \<Longrightarrow> \<exists>res. analyze_property req predicted = Inr res"
  using monthly_payment_total[of "loanTerm req * 12"]
  by (auto simp: analyze_property_def Let_def split: sum.splits) (metis sum.distinct(1))

lemma metrics_after_payment_payback:
  "payback_period (metrics_after_payment price a mo dp la mr pay) =
     (if 0 < monthly_cash_flow (metrics_after_payment price a mo dp la mr pay) * 12
      then Finite (total_upfront_cost (metrics_after_payment price a mo dp la mr pay)
             / (monthly_cash_flow (metrics_after_payment price a mo dp la mr pay) * 12))
      else Inf)"
  by (simp add: metrics_after_payment_def Let_def)

text \<open>
  C5. Whenever the monthly cash flow is \<open>\<le> 0\<close> the payback period is the sentinel
  (\<^verbatim>\<open>float('inf')\<close> in \<^verbatim>\<open>calculate_metrics\<close> and in \<^verbatim>\<open>analyze_property\<close>,
  which reports it as 999); when the annual cash flow is positive it is
  \<open>total_upfront_cost / annual_cash_flow\<close>. The payback step itself cannot raise: with
  a positive loan term both functions return, and an exception of
  \<^verbatim>\<open>calculate_metrics\<close> is always the one of the payment expression.
\<close>

theorem payback_period_sentinel:
  "(calculate_metrics price a mo = Inr m \<longrightarrow>
      (monthly_cash_flow m \<le> 0 \<longrightarrow> payback_period m = Inf)
      \<and> (0 < monthly_cash_flow m * 12 \<longrightarrow>
           payback_period m = Finite (total_upfront_cost m / (monthly_cash_flow m * 12))))
   \<and> (0 < loan_term a \<longrightarrow> (\<exists>m. calculate_metrics price a mo = Inr m))
   \<and> (calculate_metrics price a mo = Inl e \<longrightarrow>
        monthly_payment (price - price * (down_payment_pct a / 100)) (interest_rate a / 100 / 12)
          (loan_term a * 12) = Inl e)
   \<and> (0 < loanTerm req \<longrightarrow> (\<exists>res. analyze_property req predicted = Inr res))
   \<and> api_payback_period upfront cash_flow
       = (if cash_flow \<le> 0 then Inf else Finite (upfront / (cash_flow * 12)))
   \<and> (analyze_property req predicted = Inr res \<longrightarrow>
        (monthlyCashFlow res \<le> 0 \<longrightarrow> paybackPeriod res = 999)
        \<and> (0 < monthlyCashFlow res \<longrightarrow>
             paybackPeriod res =
               (req_price req * (downPaymentPct req / 100)
                  + req_price req * (closingCostsPct req / 100)) / (monthlyCashFlow res * 12)))"
proof (intro conjI impI)
  assume h: "calculate_metrics price a mo = Inr m"
  from h calculate_metrics_Inr[of price a mo m] obtain pay where
    m: "m = metrics_after_payment price a mo (price * (down_payment_pct a / 100))
           (price - price * (down_payment_pct a / 100)) (interest_rate a / 100 / 12) pay"
    by blast
  { assume "monthly_cash_flow m \<le> 0"
    then show "payback_period m = Inf"
      unfolding m by (subst metrics_after_payment_payback) (simp add: mult_le_0_iff) }
  { assume "0 < monthly_cash_flow m * 12"
    then show "payback_period m = Finite (total_upfront_cost m / (monthly_cash_flow m * 12))"
      unfolding m by (subst metrics_after_payment_payback) simp }
next
  assume "0 < loan_term a"
  then show "\<exists>m. calculate_metrics price a mo = Inr m"
    by (rule calculate_metrics_total)
next
  assume "0 < loanTerm req"
  then show "\<exists>res. analyze_property req predicted = Inr res"
    by (rule analyze_property_total)
next
  assume "calculate_metrics price a mo = Inl e"
  then show "monthly_payment (price - price * (down_payment_pct a / 100))
      (interest_rate a / 100 / 12) (loan_term a * 12) = Inl e"
    by (auto simp: calculate_metrics_def Let_def split: sum.splits)
next
  show "api_payback_period upfront cash_flow
       = (if cash_flow \<le> 0 then Inf else Finite (upfront / (cash_flow * 12)))"
    by (simp add: api_payback_period_def)
next
  assume h: "analyze_property req predicted = Inr res"
  { assume "monthlyCashFlow res \<le> 0"
    with h show "paybackPeriod res = 999"
      by (auto simp: analyze_property_def Let_def api_payback_period_def split: sum.splits) }
  { assume "0 < monthlyCashFlow res"
    with h show "paybackPeriod res =
               (req_price req * (downPaymentPct req / 100)
                  + req_price req * (closingCostsPct req / 100)) / (monthlyCashFlow res * 12)"
      by (auto simp: analyze_property_def Let_def api_payback_period_def split: sum.splits) }
qed


theorem cap_rate_financing_invariant_witness:
  "(\<exists>m m'. calculate_metrics 120000 example_assumptions no_overrides = Inr m
      \<and> calculate_metrics 120000
           (example_assumptions\<lparr>down_payment_pct := 50, interest_rate := 6, loan_term := 15\<rparr>)
           no_overrides = Inr m'
      \<and> cap_rate m' = cap_rate m)
   \<and> (\<exists>sc sc'. scenario_outputs example_scenario_inputs 1000 = Inr sc
      \<and> scenario_outputs
           (example_scenario_inputs
              \<lparr>in_down_payment_pct := 50, in_interest_rate := 6, in_loan_term := 15\<rparr>) 1000 = Inr sc'
      \<and> sc_cap_rate sc' = sc_cap_rate sc)"
proof
  obtain m where m: "calculate_metrics 120000 example_assumptions no_overrides = Inr m"
    using calculate_metrics_total[of example_assumptions] by (auto simp: example_assumptions_def)
  obtain m' where m': "calculate_metrics 120000
      (example_assumptions\<lparr>down_payment_pct := 50, interest_rate := 6, loan_term := 15\<rparr>)
      no_overrides = Inr m'"
    using calculate_metrics_total[of
        "example_assumptions\<lparr>down_payment_pct := 50, interest_rate := 6, loan_term := 15\<rparr>"]
    by auto
  from cap_rate_financing_invariant[where price = 120000 and a = example_assumptions
      and mo = no_overrides and m = m and d = 50 and ir = 6 and t = 15 and m' = m'] m m'
  show "\<exists>m m'. calculate_metrics 120000 example_assumptions no_overrides = Inr m
      \<and> calculate_metrics 120000
           (example_assumptions\<lparr>down_payment_pct := 50, interest_rate := 6, loan_term := 15\<rparr>)
           no_overrides = Inr m'
      \<and> cap_rate m' = cap_rate m"
    by blast
next
  obtain sc where sc: "scenario_outputs example_scenario_inputs 1000 = Inr sc"
    using example_scenario[of 1000] by blast
  obtain sc' where sc': "scenario_outputs
      (example_scenario_inputs
         \<lparr>in_down_payment_pct := 50, in_interest_rate := 6, in_loan_term := 15\<rparr>) 1000 = Inr sc'"
    using scenario_outputs_total[of "example_scenario_inputs
         \<lparr>in_down_payment_pct := 50, in_interest_rate := 6, in_loan_term := 15\<rparr>" 1000]
    by auto
  from cap_rate_financing_invariant[where d = 50 and ir = 6 and t = 15
      and i = example_scenario_inputs and rent = 1000 and sc = sc and sc' = sc'] sc sc'
  show "\<exists>sc sc'. scenario_outputs example_scenario_inputs 1000 = Inr sc
      \<and> scenario_outputs
           (example_scenario_inputs
              \<lparr>in_down_payment_pct := 50, in_interest_rate := 6, in_loan_term := 15\<rparr>) 1000 = Inr sc'
      \<and> sc_cap_rate sc' = sc_cap_rate sc"
    by blast
qed

theorem cash_flow_increasing_in_rent_witness:
  "(\<exists>m_lo m_hi. rent_expense_fraction example_assumptions < 1 \<and> (1000 :: real) < 1100
      \<and> calculate_metrics 120000 (example_assumptions\<lparr>estimated_rent := 1000\<rparr>) no_overrides = Inr m_lo
      \<and> calculate_metrics 120000 (example_assumptions\<lparr>estimated_rent := 1100\<rparr>) no_overrides = Inr m_hi
      \<and> monthly_cash_flow m_lo < monthly_cash_flow m_hi)
   \<and> (\<exists>sc_lo sc_hi. scenario_rent_expense_fraction example_scenario_inputs < 1
      \<and> scenario_outputs example_scenario_inputs 1000 = Inr sc_lo
      \<and> scenario_outputs example_scenario_inputs 1100 = Inr sc_hi
      \<and> sc_monthly_cash_flow sc_lo < sc_monthly_cash_flow sc_hi)"
proof
  have k: "rent_expense_fraction example_assumptions < 1"
    by (simp add: rent_expense_fraction_def example_assumptions_def)
  obtain m_lo where m_lo: "calculate_metrics 120000
      (example_assumptions\<lparr>estimated_rent := 1000\<rparr>) no_overrides = Inr m_lo"
    using example_metrics[of 1000] by simp
  obtain m_hi where m_hi: "calculate_metrics 120000
      (example_assumptions\<lparr>estimated_rent := 1100\<rparr>) no_overrides = Inr m_hi"
    using example_metrics[of 1100] by simp
  from cash_flow_increasing_in_rent[where a = example_assumptions and rent_lo = 1000
      and rent_hi = 1100 and price = 120000 and m_lo = m_lo and m_hi = m_hi] k m_lo m_hi
  show "\<exists>m_lo m_hi. rent_expense_fraction example_assumptions < 1 \<and> (1000 :: real) < 1100
      \<and> calculate_metrics 120000 (example_assumptions\<lparr>estimated_rent := 1000\<rparr>) no_overrides = Inr m_lo
      \<and> calculate_metrics 120000 (example_assumptions\<lparr>estimated_rent := 1100\<rparr>) no_overrides = Inr m_hi
      \<and> monthly_cash_flow m_lo < monthly_cash_flow m_hi"
    by auto
next
  have k: "scenario_rent_expense_fraction example_scenario_inputs < 1"
    by (simp add: scenario_rent_expense_fraction_def example_scenario_inputs_def)
  obtain sc_lo where sc_lo: "scenario_outputs example_scenario_inputs 1000 = Inr sc_lo"
    using example_scenario[of 1000] by blast
  obtain sc_hi where sc_hi: "scenario_outputs example_scenario_inputs 1100 = Inr sc_hi"
    using example_scenario[of 1100] by blast
  from cash_flow_increasing_in_rent[where rent_lo = 1000 and rent_hi = 1100
      and i = example_scenario_inputs and sc_lo = sc_lo and sc_hi = sc_hi] k sc_lo sc_hi
  show "\<exists>sc_lo sc_hi. scenario_rent_expense_fraction example_scenario_inputs < 1
      \<and> scenario_outputs example_scenario_inputs 1000 = Inr sc_lo
      \<and> scenario_outputs example_scenario_inputs 1100 = Inr sc_hi
      \<and> sc_monthly_cash_flow sc_lo < sc_monthly_cash_flow sc_hi"
    by auto
qed


lemma example_request_analysis:
  "\<exists>res. analyze_property (example_request\<lparr>interestRate := 0\<rparr>) predicted = Inr res
     \<and> monthlyCashFlow res = api_monthly_rent 200000 predicted * (85 / 100) - 3500 / 6"
  by (simp add: analyze_property_def example_request_def monthly_payment_def Let_def)

theorem payback_period_sentinel_witness:
  "(\<exists>m. calculate_metrics 120000 (example_assumptions\<lparr>estimated_rent := 100\<rparr>) no_overrides = Inr m
      \<and> monthly_cash_flow m \<le> 0 \<and> payback_period m = Inf)
   \<and> (\<exists>m. calculate_metrics 120000 (example_assumptions\<lparr>estimated_rent := 1000\<rparr>) no_overrides = Inr m
      \<and> 0 < monthly_cash_flow m * 12
      \<and> payback_period m = Finite (total_upfront_cost m / (monthly_cash_flow m * 12)))
   \<and> calculate_metrics 120000 (example_assumptions\<lparr>interest_rate := 6, loan_term := 0\<rparr>)
        no_overrides = Inl ZeroDivisionError
   \<and> monthly_payment (120000 - 120000 * (20 / 100)) (6 / 100 / 12) (0 * 12) = Inl ZeroDivisionError
   \<and> (\<exists>res. analyze_property (example_request\<lparr>interestRate := 0\<rparr>) (Some 100) = Inr res
      \<and> monthlyCashFlow res \<le> 0 \<and> paybackPeriod res = 999)
   \<and> (\<exists>res. analyze_property (example_request\<lparr>interestRate := 0\<rparr>) None = Inr res
      \<and> 0 < monthlyCashFlow res
      \<and> paybackPeriod res = (200000 * (20 / 100) + 200000 * (3 / 100)) / (monthlyCashFlow res * 12))"
proof (intro conjI)
  let ?lo = "metrics_after_payment 120000 (example_assumptions\<lparr>estimated_rent := 100\<rparr>)
         no_overrides 24000 96000 0 0"
  have "monthly_cash_flow ?lo \<le> 0"
    by (simp add: cash_flow_no_overrides rent_expense_fraction_def example_assumptions_def)
  with payback_period_sentinel[where price = 120000
      and a = "example_assumptions\<lparr>estimated_rent := 100\<rparr>" and mo = no_overrides and m = ?lo]
    example_metrics[of 100]
  show "\<exists>m. calculate_metrics 120000 (example_assumptions\<lparr>estimated_rent := 100\<rparr>) no_overrides = Inr m
      \<and> monthly_cash_flow m \<le> 0 \<and> payback_period m = Inf"
    by blast
next
  let ?hi = "metrics_after_payment 120000 (example_assumptions\<lparr>estimated_rent := 1000\<rparr>)
         no_overrides 24000 96000 0 0"
  have "0 < monthly_cash_flow ?hi * 12"
    by (simp add: cash_flow_no_overrides rent_expense_fraction_def example_assumptions_def)
  with payback_period_sentinel[where price = 120000
      and a = "example_assumptions\<lparr>estimated_rent := 1000\<rparr>" and mo = no_overrides and m = ?hi]
    example_metrics[of 1000]
  show "\<exists>m. calculate_metrics 120000 (example_assumptions\<lparr>estimated_rent := 1000\<rparr>) no_overrides = Inr m
      \<and> 0 < monthly_cash_flow m * 12
      \<and> payback_period m = Finite (total_upfront_cost m / (monthly_cash_flow m * 12))"
    by blast
next
  show e: "calculate_metrics 120000 (example_assumptions\<lparr>interest_rate := 6, loan_term := 0\<rparr>)
        no_overrides = Inl ZeroDivisionError"
    by (simp add: calculate_metrics_def example_assumptions_def monthly_payment_def py_pow_def)
  from payback_period_sentinel[where price = 120000
      and a = "example_assumptions\<lparr>interest_rate := 6, loan_term := 0\<rparr>" and mo = no_overrides
      and e = ZeroDivisionError] e
  show "monthly_payment (120000 - 120000 * (20 / 100)) (6 / 100 / 12) (0 * 12) = Inl ZeroDivisionError"
    by (simp add: example_assumptions_def)
next
  from example_request_analysis[of "Some 100"] obtain res where
    r: "analyze_property (example_request\<lparr>interestRate := 0\<rparr>) (Some 100) = Inr res"
    and c: "monthlyCashFlow res \<le> 0"
    by (auto simp: api_monthly_rent_def)
  from payback_period_sentinel[where req = "example_request\<lparr>interestRate := 0\<rparr>"
      and predicted = "Some 100" and res = res] r c
  show "\<exists>res. analyze_property (example_request\<lparr>interestRate := 0\<rparr>) (Some 100) = Inr res
      \<and> monthlyCashFlow res \<le> 0 \<and> paybackPeriod res = 999"
    by blast
next
  from example_request_analysis[of None] obtain res where
    r: "analyze_property (example_request\<lparr>interestRate := 0\<rparr>) None = Inr res"
    and c: "0 < monthlyCashFlow res"
    by (auto simp: api_monthly_rent_def)
  from payback_period_sentinel[where req = "example_request\<lparr>interestRate := 0\<rparr>"
      and predicted = None and res = res] r c
  have "paybackPeriod res = (200000 * (20 / 100) + 200000 * (3 / 100)) / (monthlyCashFlow res * 12)"
    by (simp add: example_request_def)
  with r c
  show "\<exists>res. analyze_property (example_request\<lparr>interestRate := 0\<rparr>) None = Inr res
      \<and> 0 < monthlyCashFlow res
      \<and> paybackPeriod res = (200000 * (20 / 100) + 200000 * (3 / 100)) / (monthlyCashFlow res * 12)"
    by blast
qed

subsection \<open>Amortization schedules and first-year total ROI\<close>

lemma amortize_Suc:
  "amortize (Suc k) r M s = amortize k r M (amortize (Suc 0) r M s)"
  by (cases s) (simp add: Let_def)

lemma amortize_conserves:
  "fst (amortize k r M (paid, bal)) + snd (amortize k r M (paid, bal)) = paid + bal"
  by (induction k arbitrary: paid bal) (simp_all add: Let_def)

lemma amortize_balance:
  assumes "r \<noteq> 0"
  shows "snd (amortize k r M (paid, bal)) = bal * (1 + r) ^ k - M * ((1 + r) ^ k - 1) / r"
proof (induction k arbitrary: paid bal)
  case 0
  show ?case by simp
next
  case (Suc k)
  have "snd (amortize (Suc k) r M (paid, bal))
      = (bal - (M - bal * r)) * (1 + r) ^ k - M * ((1 + r) ^ k - 1) / r"
    by (simp add: Let_def Suc.IH)
  also have "\<dots> = bal * (1 + r) ^ Suc k - M * ((1 + r) ^ Suc k - 1) / r"
    using assms by (simp add: field_simps)
  finally show ?case .
qed

text \<open>The balance under the annuity payment.\<close>

lemma annuity_balance:
  fixes P r :: real
  assumes "0 < r" "0 < n" and M: "M = P * r * (1 + r) ^ n / ((1 + r) ^ n - 1)"
  shows "snd (amortize k r M (0, P)) = P * ((1 + r) ^ n - (1 + r) ^ k) / ((1 + r) ^ n - 1)"
proof -
  have q: "1 < (1 + r) ^ n" using assms by simp
  then have d: "(1 + r) ^ n - 1 \<noteq> 0" by simp
  have r0: "r \<noteq> 0" using assms by simp
  have "snd (amortize k r M (0, P)) = P * (1 + r) ^ k - M * ((1 + r) ^ k - 1) / r"
    by (rule amortize_balance[OF r0])
  also have "M * ((1 + r) ^ k - 1) / r = P * (1 + r) ^ n * ((1 + r) ^ k - 1) / ((1 + r) ^ n - 1)"
    unfolding M using r0 by simp
  also have "P * (1 + r) ^ k - P * (1 + r) ^ n * ((1 + r) ^ k - 1) / ((1 + r) ^ n - 1)
      = P * ((1 + r) ^ n - (1 + r) ^ k) / ((1 + r) ^ n - 1)"
    using d by (simp add: field_simps)
  finally show ?thesis .
qed

lemma annuity_schedule:
  fixes P r :: real
  assumes "0 < P" "0 < r" "0 < n" and M: "M = P * r * (1 + r) ^ n / ((1 + r) ^ n - 1)"
  shows "snd (amortize (Suc k) r M (0, P)) \<le> snd (amortize k r M (0, P))"
    and "k \<le> n \<Longrightarrow> 0 \<le> snd (amortize k r M (0, P))"
    and "snd (amortize (Suc n) r M (0, P)) = - M"
    and "0 < M"
    and "0 < k \<Longrightarrow> 0 < fst (amortize k r M (0, P))"
proof -
  define Q where "Q = (1 + r) ^ n"
  define D where "D = Q - 1"
  have q: "1 < Q" unfolding Q_def using assms by simp
  then have d: "0 < D" unfolding D_def by simp
  have M': "M = P * r * Q / D" unfolding M Q_def D_def ..
  have bal: "snd (amortize j r M (0, P)) = P * (Q - (1 + r) ^ j) / D" for j
    unfolding Q_def D_def by (rule annuity_balance[OF assms(2,3) M])
  have "(1 + r) ^ k \<le> (1 + r) ^ Suc k"
    using assms(2) by (intro power_increasing) auto
  then have "Q - (1 + r) ^ Suc k \<le> Q - (1 + r) ^ k" by linarith
  then have "P * (Q - (1 + r) ^ Suc k) \<le> P * (Q - (1 + r) ^ k)"
    using assms(1) by (intro mult_left_mono) auto
  then have "P * (Q - (1 + r) ^ Suc k) / D \<le> P * (Q - (1 + r) ^ k) / D"
    using d by (intro divide_right_mono) auto
  then show "snd (amortize (Suc k) r M (0, P)) \<le> snd (amortize k r M (0, P))"
    by (simp only: bal)
  show "0 \<le> snd (amortize k r M (0, P))" if "k \<le> n"
  proof -
    have "(1 + r) ^ k \<le> Q" unfolding Q_def using assms(2) that by (intro power_increasing) auto
    then have "0 \<le> P * (Q - (1 + r) ^ k)" using assms(1) by (intro mult_nonneg_nonneg) auto
    then have "0 \<le> P * (Q - (1 + r) ^ k) / D" using d by (intro divide_nonneg_nonneg) auto
    then show ?thesis by (simp only: bal)
  qed
  have "(1 + r) ^ Suc n = (1 + r) * Q" unfolding Q_def by simp
  then have "P * (Q - (1 + r) ^ Suc n) = - (P * r * Q)" by (simp add: algebra_simps)
  then have neg: "P * (Q - (1 + r) ^ Suc n) / D = - (P * r * Q / D)"
    by (simp only: minus_divide_left)
  have "snd (amortize (Suc n) r M (0, P)) = P * (Q - (1 + r) ^ Suc n) / D" by (rule bal)
  also have "\<dots> = - (P * r * Q / D)" by (rule neg)
  also have "\<dots> = - M" by (simp only: M')
  finally show "snd (amortize (Suc n) r M (0, P)) = - M" .
  have "0 < P * r * Q" using assms(1,2) q by (intro mult_pos_pos) auto
  then show "0 < M" unfolding M' using d by (intro divide_pos_pos)
  show "0 < fst (amortize k r M (0, P))" if "0 < k"
  proof -
    have "1 < (1 + r) ^ k" using assms(2) that by (intro one_less_power) auto
    then have "Q - (1 + r) ^ k < D" unfolding D_def by linarith
    then have "P * (Q - (1 + r) ^ k) < P * D"
      using assms(1) by (intro mult_strict_left_mono) auto
    then have "P * (Q - (1 + r) ^ k) / D < P"
      using d by (simp only: pos_divide_less_eq)
    then have "snd (amortize k r M (0, P)) < P" by (simp only: bal)
    with amortize_conserves[of k r M 0 P] show ?thesis by simp
  qed
qed

lemma equity_loop_break:
  assumes "\<forall>j. 1 \<le> j \<and> j \<le> n \<longrightarrow> 0 \<le> snd (amortize j r M s)"
    and "snd (amortize (Suc n) r M s) < 0" and "n < N"
  shows "equity_loop N r M s = amortize (Suc n) r M s"
  using assms
proof (induction n arbitrary: s N)
  case 0
  obtain eq bal where s: "s = (eq, bal)" by (cases s)
  from 0 obtain N' where N: "N = Suc N'" by (cases N) auto
  from 0 show ?case unfolding s N by (simp add: Let_def)
next
  case (Suc n)
  obtain eq bal where s: "s = (eq, bal)" by (cases s)
  from Suc.prems obtain N' where N: "N = Suc N'" and lt: "n < N'" by (cases N) auto
  let ?s1 = "amortize (Suc 0) r M s"
  from Suc.prems(1) have nonneg: "0 \<le> snd ?s1" by simp
  have 1: "\<forall>j. 1 \<le> j \<and> j \<le> n \<longrightarrow> 0 \<le> snd (amortize j r M ?s1)"
    using Suc.prems(1) by (simp add: amortize_Suc[symmetric])
  have 2: "snd (amortize (Suc n) r M ?s1) < 0"
    using Suc.prems(2) by (simp only: amortize_Suc[symmetric])
  have "equity_loop N r M s = equity_loop N' r M ?s1"
    using nonneg unfolding s N by (simp add: Let_def)
  also have "\<dots> = amortize (Suc n) r M ?s1"
    by (rule Suc.IH[OF 1 2 lt])
  also have "\<dots> = amortize (Suc (Suc n)) r M s"
    by (simp only: amortize_Suc[symmetric])
  finally show ?case .
qed

lemma equity_loop_within_term:
  assumes "\<forall>j. 1 \<le> j \<and> j \<le> N \<longrightarrow> 0 \<le> snd (amortize j r M s)"
  shows "equity_loop N r M s = amortize N r M s"
  using assms
proof (induction N arbitrary: s)
  case 0
  show ?case by (cases s) simp
next
  case (Suc N)
  obtain eq bal where s: "s = (eq, bal)" by (cases s)
  let ?s1 = "amortize (Suc 0) r M s"
  from Suc.prems have nonneg: "0 \<le> snd ?s1" by simp
  have 1: "\<forall>j. 1 \<le> j \<and> j \<le> N \<longrightarrow> 0 \<le> snd (amortize j r M ?s1)"
    using Suc.prems by (simp add: amortize_Suc[symmetric])
  have "equity_loop (Suc N) r M s = equity_loop N r M ?s1"
    using nonneg unfolding s by (simp add: Let_def)
  also have "\<dots> = amortize N r M ?s1" by (rule Suc.IH[OF 1])
  also have "\<dots> = amortize (Suc N) r M s" by (simp only: amortize_Suc[symmetric])
  finally show ?case .
qed

lemma equity_loop_past_term:
  fixes P r :: real
  assumes "0 < P" "0 < r" "0 < n" "n < N" and M: "M = P * r * (1 + r) ^ n / ((1 + r) ^ n - 1)"
  shows "equity_loop N r M (0, P) = (P + M, - M)" and "0 < M"
proof -
  note sch = annuity_schedule[OF assms(1,2,3) M]
  show "0 < M" by (rule sch(4))
  have 1: "\<forall>j. 1 \<le> j \<and> j \<le> n \<longrightarrow> 0 \<le> snd (amortize j r M (0, P))"
    using sch(2) by blast
  have 2: "snd (amortize (Suc n) r M (0, P)) < 0"
    using sch(3) sch(4) by simp
  have "equity_loop N r M (0, P) = amortize (Suc n) r M (0, P)"
    by (rule equity_loop_break[OF 1 2 assms(4)])
  moreover have "fst (amortize (Suc n) r M (0, P)) = P + M"
    using amortize_conserves[of "Suc n" r M 0 P] sch(3) by simp
  ultimately show "equity_loop N r M (0, P) = (P + M, - M)"
    using sch(3) by (simp add: prod_eq_iff)
qed

text \<open>
  C4, evaluated on \<^verbatim>\<open>run_analysis\<close>. For the year-one loop of
  \<^verbatim>\<open>calculate_metrics\<close> the claim holds (\<open>first_year_schedule\<close>). The equity
  projection, for a 15-year loan projected to year 16 (price 100000, nothing down, 0.1%),
  makes a 181st payment: it ends with a negative balance of one payment and an equity
  above the whole loan.
\<close>

theorem projected_equity_overshoot:
  "(case projected_equity 100000 0 0.1 15 16 of
      Inr (eq, bal) \<Rightarrow> bal < 0 \<and> 100000 < eq \<and> eq = 100000 - bal
        \<and> monthly_payment 100000 (1 / 12000) 180 = Inr (- bal)
    | Inl e \<Rightarrow> False)"
proof -
  define M :: real
    where "M = 100000 * (1 / 12000) * (1 + 1 / 12000) ^ 180 / ((1 + 1 / 12000) ^ 180 - 1)"
  have "monthly_payment 100000 (1 / 12000) 180
      = Inr (100000 * (1 / 12000) * (1 + 1 / 12000) ^ nat 180 / ((1 + 1 / 12000) ^ nat 180 - 1))"
    by (rule monthly_payment_formula) simp_all
  then have pay: "monthly_payment 100000 (1 / 12000) 180 = Inr M"
    by (simp only: M_def nat_numeral)
  have loop: "equity_loop 192 (1 / 12000) M (0, 100000) = (100000 + M, - M)"
    by (rule equity_loop_past_term(1)[OF _ _ _ _ M_def]) simp_all
  have pos: "0 < M"
    by (rule equity_loop_past_term(2)[OF _ _ _ _ M_def, of 192]) simp_all
  have args: "(100000 - 100000 * 0 / 100 :: real) = 100000" "(0.1 / 100 / 12 :: real) = 1 / 12000"
    "(15 * 12 :: int) = 180" "(16 * 12 :: nat) = 192"
    by simp_all
  have "projected_equity 100000 0 0.1 15 16 = Inr (100000 + M, - M)"
    unfolding projected_equity_def Let_def args pay by (simp add: loop)
  with pos pay show ?thesis by simp
qed

text \<open>The remaining-loan loop of \<^verbatim>\<open>run_analysis\<close> clamps, so its balance stays non-negative.\<close>

lemma remaining_loop_nonneg: "0 \<le> bal \<Longrightarrow> 0 \<le> remaining_loop k r M bal"
  by (induction k arbitrary: bal) (simp_all add: Let_def)

text \<open>\<^verbatim>\<open>calculate_roi\<close> has no principal term and takes the appreciation on its base.\<close>

lemma calculate_roi_value:
  "base \<noteq> 0 \<Longrightarrow>
     calculate_roi cash_flow base 0.03 = Inr ((cash_flow * 12 + base * 0.03) / base * 100)"
  by (simp add: calculate_roi_def Let_def)

lemma first_year_schedule:
  assumes "0 < P" "0 < r" "0 < term_years"
    and pay: "monthly_payment P r (term_years * 12) = Inr M" and k: "k \<le> 12"
  shows "fst (amortize k r M (0, P)) = P - snd (amortize k r M (0, P))"
    and "0 \<le> snd (amortize k r M (0, P))"
    and "snd (amortize (Suc k) r M (0, P)) \<le> snd (amortize k r M (0, P))"
proof -
  have n: "0 < nat (term_years * 12)" "k \<le> nat (term_years * 12)"
    using assms(3) k by auto
  have M: "M = P * r * (1 + r) ^ nat (term_years * 12) / ((1 + r) ^ nat (term_years * 12) - 1)"
    using monthly_payment_formula[of P r "term_years * 12"] assms(1,2,3) pay by simp
  show "fst (amortize k r M (0, P)) = P - snd (amortize k r M (0, P))"
    using amortize_conserves[of k r M 0 P] by simp
  show "0 \<le> snd (amortize k r M (0, P))"
    by (rule annuity_schedule(2)[OF assms(1,2) n(1) M n(2)])
  show "snd (amortize (Suc k) r M (0, P)) \<le> snd (amortize k r M (0, P))"
    by (rule annuity_schedule(1)[OF assms(1,2) n(1) M])
qed





text \<open>
  For the default request at price 200000 (5%, 30 years) the principal paid in the first
  twelve months is positive, and \<^verbatim>\<open>analyze_property\<close> returns less than the
  specified total ROI.
\<close>

lemma analyze_property_example_roi:
  "(case analyze_property example_request None of
      Inr res \<Rightarrow>
        totalROI res = spec_total_roi_pct (monthlyCashFlow res * 12) 0 200000 46000
        \<and> 0 < fst (amortize 12 (5 / 100 / 12) (monthlyPayment res) (0, 160000))
        \<and> totalROI res
            < spec_total_roi_pct (monthlyCashFlow res * 12)
                (fst (amortize 12 (5 / 100 / 12) (monthlyPayment res) (0, 160000))) 200000 46000
    | Inl e \<Rightarrow> False)"
proof -
  define M :: real where "M = 160000 * (1 / 240) * (1 + 1 / 240) ^ 360 / ((1 + 1 / 240) ^ 360 - 1)"
  have "monthly_payment 160000 (1 / 240) 360
      = Inr (160000 * (1 / 240) * (1 + 1 / 240) ^ nat 360 / ((1 + 1 / 240) ^ nat 360 - 1))"
    by (rule monthly_payment_formula) simp_all
  then have pay: "monthly_payment 160000 (1 / 240) 360 = Inr M"
    by (simp only: M_def nat_numeral)
  have paid: "0 < fst (amortize 12 (1 / 240) M (0, 160000))"
    by (rule annuity_schedule(5)[OF _ _ _ M_def]) simp_all
  obtain res where res: "analyze_property example_request None = Inr res"
    and p: "monthlyPayment res = M"
    and roi: "totalROI res = (monthlyCashFlow res * 12 + 200000 * 0.03) / 46000 * 100"
    by (simp add: analyze_property_def example_request_def Let_def pay)
  have r: "(5 / 100 / 12 :: real) = 1 / 240" by simp
  have 1: "totalROI res = spec_total_roi_pct (monthlyCashFlow res * 12) 0 200000 46000"
    unfolding roi spec_total_roi_pct_def by simp
  have 2: "totalROI res < spec_total_roi_pct (monthlyCashFlow res * 12)
      (fst (amortize 12 (1 / 240) M (0, 160000))) 200000 46000"
    unfolding roi spec_total_roi_pct_def using paid by (simp add: divide_strict_right_mono)
  show ?thesis
    unfolding res r using 1 2 paid by (simp add: p)
qed






lemma needed_numbers_cap_rate:
  "snd (snd (snd (needed_numbers cap cash_flow break_even price))) = (6 / 100 * price) / 12"
  by (simp add: needed_numbers_def BUY_THRESHOLD_CAP_RATE_def Let_def)

lemma app_needed_rent_for_cap_rate_spec:
  "app_needed_rent_for_cap_rate price a =
     spec_min_rent_for_cap_rate 6 (real_of_int (safe_int price))
       (property_tax_rate a / 100 + insurance_rate a / 100 + maintenance_rate a / 100
        + capital_reserves_rate a / 100
        + (case (vacancy_mode a, vacancy_months a) of
             (Months, Some months) \<Rightarrow> (if months \<noteq> 0 then months / 12 else vacancy_rate a / 100)
           | _ \<Rightarrow> vacancy_rate a / 100))"
  by (simp add: app_needed_rent_for_cap_rate_def spec_min_rent_for_cap_rate_def)

text \<open>
  C6, evaluated on \<^verbatim>\<open>needed_numbers\<close>. The gap report of \<^verbatim>\<open>run_analysis\<close>
  computes the specified minimum rent (\<open>app_needed_rent_for_cap_rate_spec\<close>). At price
  200000 \<^verbatim>\<open>needed_numbers\<close> reports 1000 whatever the expense rates, where the
  specified value for rates 1.5, 0.5, 1, 1 and 5 percent is 2500.
\<close>

theorem needed_numbers_omits_expense_rates:
  "snd (snd (snd (needed_numbers cap cash_flow break_even 200000))) = 1000
   \<and> spec_min_rent_for_cap_rate 6 200000 (1.5 / 100 + 0.5 / 100 + 1 / 100 + 1 / 100 + 5 / 100) = 2500"
  by (simp add: needed_numbers_def BUY_THRESHOLD_CAP_RATE_def Let_def spec_min_rent_for_cap_rate_def)

subsection \<open>Comparables: ranking and the empty result\<close>

lemma beds_col_cases: "beds_col df = Some c \<Longrightarrow> c = ''beds'' \<or> c = ''Bedrooms''"
  by (simp add: beds_col_def split: if_splits)

lemma baths_col_cases: "baths_col df = Some c \<Longrightarrow> c = ''baths'' \<or> c = ''Bathrooms''"
  by (simp add: baths_col_def split: if_splits)

lemma price_col_cases: "price_col df = Some c \<Longrightarrow> c = ''price'' \<or> c = ''Sale_price''"
  by (simp add: price_col_def split: if_splits)

lemma ranked_comps_sorted: "sorted (map sort_cols (ranked_comps df s))"
  by (simp add: ranked_comps_def Let_def)

lemma ranked_comps_rows:
  assumes "r \<in> set (ranked_comps df s)"
  shows "\<exists>r0. r = add_PriceDiff df s (add_BathDiff df s (add_BedDiff df s r0))"
proof -
  let ?f = "map (add_PriceDiff df s) (map (add_BathDiff df s)
      (map (add_BedDiff df s) (remove_outliers df (select_rows df s))))"
  have "set (ranked_comps df s) = set ?f"
    by (simp only: ranked_comps_def Let_def set_sort if_distrib[of set] if_cancel)
  with assms have "r \<in> set ?f" by simp
  then show ?thesis by (auto simp only: set_map image_iff)
qed

lemma sort_cols_of_row:
  assumes bc: "beds_col df = Some bc" "subj_beds s = Some beds"
    and bac: "baths_col df = Some bac" "subj_baths s = Some baths"
    and pc: "price_col df = Some pc" "subj_price s = Some price"
    and r: "r \<in> set (ranked_comps df s)"
  shows "sort_cols r = (\<bar>r bc - beds\<bar>, \<bar>r bac - baths\<bar>, \<bar>r pc - price\<bar>)"
proof -
  from r obtain r0 where r0: "r = add_PriceDiff df s (add_BathDiff df s (add_BedDiff df s r0))"
    using ranked_comps_rows by blast
  have n1: "bc \<noteq> ''BedDiff''" "bc \<noteq> ''BathDiff''" "bc \<noteq> ''PriceDiff''"
    using beds_col_cases[OF bc(1)] by auto
  have n2: "bac \<noteq> ''BedDiff''" "bac \<noteq> ''BathDiff''" "bac \<noteq> ''PriceDiff''"
    using baths_col_cases[OF bac(1)] by auto
  have n3: "pc \<noteq> ''BedDiff''" "pc \<noteq> ''BathDiff''" "pc \<noteq> ''PriceDiff''"
    using price_col_cases[OF pc(1)] by auto
  have r_eq: "r = r0(''BedDiff'' := \<bar>r0 bc - beds\<bar>, ''BathDiff'' := \<bar>r0 bac - baths\<bar>,
      ''PriceDiff'' := \<bar>r0 pc - price\<bar>)"
    unfolding r0 add_PriceDiff_def add_BathDiff_def add_BedDiff_def
    by (simp add: bc bac pc n1 n2 n3)
  show ?thesis
    unfolding sort_cols_def by (subst (1 2 3 4 5 6) r_eq) (simp add: n1 n2 n3)
qed

lemma ranked_comps_mset:
  "mset (ranked_comps df s)
     = mset (map (\<lambda>r. add_PriceDiff df s (add_BathDiff df s (add_BedDiff df s r)))
         (remove_outliers df (select_rows df s)))"
  by (simp add: ranked_comps_def Let_def comp_def mset_sort)

lemma added_columns_only:
  assumes "c \<noteq> ''BedDiff''" "c \<noteq> ''BathDiff''" "c \<noteq> ''PriceDiff''"
  shows "add_PriceDiff df s (add_BathDiff df s (add_BedDiff df s r)) c = r c"
  using assms
  by (simp add: add_PriceDiff_def add_BathDiff_def add_BedDiff_def split: option.splits)

lemma lex3_le_iff: "lex3_le x y \<longleftrightarrow> x \<le> y"
  by (cases x; cases y) (auto simp: less_eq_prod_def)

lemma ranked_comps_key:
  assumes "beds_col df = Some bc" "subj_beds s = Some beds"
    and "baths_col df = Some bac" "subj_baths s = Some baths"
    and "price_col df = Some pc" "subj_price s = Some price"
    and "i < length (ranked_comps df s)"
  shows "sort_cols (ranked_comps df s ! i) = abs_diffs bc beds bac baths pc price (ranked_comps df s ! i)"
  unfolding abs_diffs_def using assms(7) by (intro sort_cols_of_row[OF assms(1-6)]) simp

text \<open>
  C8. The ranking is lexicographic by ascending (\<open>|beds diff|\<close>, \<open>|baths diff|\<close>,
  \<open>|price diff|\<close>): the ranked output consists of exactly the candidates of the filtered
  set (each with the three sort columns added and its own columns unchanged); every earlier
  row's triple of absolute differences from the subject is lexicographically at most every
  later row's; and of two rows with the same absolute bedroom difference and the same
  absolute bath difference, the one with the smaller absolute price difference comes
  earlier.
\<close>

theorem ranked_comps_lexicographic:
  assumes "beds_col df = Some bc" "subj_beds s = Some beds"
    and "baths_col df = Some bac" "subj_baths s = Some baths"
    and "price_col df = Some pc" "subj_price s = Some price"
  shows "mset (ranked_comps df s)
       = mset (map (\<lambda>r. add_PriceDiff df s (add_BathDiff df s (add_BedDiff df s r)))
           (remove_outliers df (select_rows df s)))
     \<and> (\<forall>r c. c \<noteq> ''BedDiff'' \<and> c \<noteq> ''BathDiff'' \<and> c \<noteq> ''PriceDiff''
          \<longrightarrow> add_PriceDiff df s (add_BathDiff df s (add_BedDiff df s r)) c = r c)
     \<and> (\<forall>i j. i < j \<and> j < length (ranked_comps df s)
          \<longrightarrow> lex3_le (abs_diffs bc beds bac baths pc price (ranked_comps df s ! i))
                (abs_diffs bc beds bac baths pc price (ranked_comps df s ! j)))
     \<and> (\<forall>i j. i < length (ranked_comps df s) \<and> j < length (ranked_comps df s)
          \<and> \<bar>(ranked_comps df s ! i) bc - beds\<bar> = \<bar>(ranked_comps df s ! j) bc - beds\<bar>
          \<and> \<bar>(ranked_comps df s ! i) bac - baths\<bar> = \<bar>(ranked_comps df s ! j) bac - baths\<bar>
          \<and> \<bar>(ranked_comps df s ! i) pc - price\<bar> < \<bar>(ranked_comps df s ! j) pc - price\<bar>
          \<longrightarrow> i < j)"
proof (intro conjI allI impI)
  show "mset (ranked_comps df s)
       = mset (map (\<lambda>r. add_PriceDiff df s (add_BathDiff df s (add_BedDiff df s r)))
           (remove_outliers df (select_rows df s)))"
    by (rule ranked_comps_mset)
next
  fix r c
  assume "c \<noteq> ''BedDiff'' \<and> c \<noteq> ''BathDiff'' \<and> c \<noteq> ''PriceDiff''"
  then show "add_PriceDiff df s (add_BathDiff df s (add_BedDiff df s r)) c = r c"
    by (intro added_columns_only) auto
next
  fix i j
  define out where "out = ranked_comps df s"
  assume "i < j \<and> j < length (ranked_comps df s)"
  then have ij: "i \<le> j" "j < length out" "i < length out" unfolding out_def by auto
  have srt: "sorted (map sort_cols out)" unfolding out_def by (rule ranked_comps_sorted)
  have "map sort_cols out ! i \<le> map sort_cols out ! j"
    using srt ij by (intro sorted_nth_mono) auto
  then have "sort_cols (out ! i) \<le> sort_cols (out ! j)" using ij by simp
  then have "abs_diffs bc beds bac baths pc price (out ! i)
      \<le> abs_diffs bc beds bac baths pc price (out ! j)"
    using ranked_comps_key[OF assms, of i] ranked_comps_key[OF assms, of j] ij
    unfolding out_def by simp
  then show "lex3_le (abs_diffs bc beds bac baths pc price (ranked_comps df s ! i))
      (abs_diffs bc beds bac baths pc price (ranked_comps df s ! j))"
    unfolding out_def by (simp only: lex3_le_iff)
next
  fix i j
  define out where "out = ranked_comps df s"
  assume h: "i < length (ranked_comps df s) \<and> j < length (ranked_comps df s)
          \<and> \<bar>(ranked_comps df s ! i) bc - beds\<bar> = \<bar>(ranked_comps df s ! j) bc - beds\<bar>
          \<and> \<bar>(ranked_comps df s ! i) bac - baths\<bar> = \<bar>(ranked_comps df s ! j) bac - baths\<bar>
          \<and> \<bar>(ranked_comps df s ! i) pc - price\<bar> < \<bar>(ranked_comps df s ! j) pc - price\<bar>"
  then have len: "i < length out" "j < length out"
    and e1: "\<bar>(out ! i) bc - beds\<bar> = \<bar>(out ! j) bc - beds\<bar>"
    and e2: "\<bar>(out ! i) bac - baths\<bar> = \<bar>(out ! j) bac - baths\<bar>"
    and lt: "\<bar>(out ! i) pc - price\<bar> < \<bar>(out ! j) pc - price\<bar>"
    unfolding out_def by auto
  show "i < j"
  proof (rule ccontr)
    assume "\<not> i < j"
    then have ji: "j \<le> i" by simp
    have srt: "sorted (map sort_cols out)" unfolding out_def by (rule ranked_comps_sorted)
    have "map sort_cols out ! j \<le> map sort_cols out ! i"
      using srt ji len by (intro sorted_nth_mono) auto
    then have "sort_cols (out ! j) \<le> sort_cols (out ! i)" using len by simp
    then have "abs_diffs bc beds bac baths pc price (out ! j)
        \<le> abs_diffs bc beds bac baths pc price (out ! i)"
      using ranked_comps_key[OF assms, of i] ranked_comps_key[OF assms, of j] len
      unfolding out_def by simp
    then show False
      unfolding abs_diffs_def e1 e2 using lt by (simp add: less_eq_prod_def)
  qed
qed

lemma example_cols:
  "zip_col example_comps = None" "beds_col example_comps = Some ''beds''"
  "baths_col example_comps = Some ''baths''" "sqft_col example_comps = None"
  "price_col example_comps = Some ''price''"
  by (simp_all add: zip_col_def beds_col_def baths_col_def sqft_col_def price_col_def
      example_comps_def)

lemma example_subject_fields:
  "subj_beds example_subject = Some 3" "subj_baths example_subject = Some 2"
  "subj_price example_subject = Some 200000"
  by (simp_all add: example_subject_def)

lemma example_selected:
  "remove_outliers example_comps (select_rows example_comps example_subject)
     = [example_row_c, example_row_a, example_row_b]"
  by (simp add: remove_outliers_def select_rows_def zip_ok_def beds_ok_def baths_ok_def
      sqft_ok_def example_cols example_subject_def example_row_a_def example_row_b_def
      example_row_c_def)
    (simp add: example_comps_def example_row_a_def example_row_b_def example_row_c_def)

lemma example_keys:
  "sort_cols (add_PriceDiff example_comps example_subject
      (add_BathDiff example_comps example_subject
        (add_BedDiff example_comps example_subject example_row_a))) = (0, 0, 50000)"
  "sort_cols (add_PriceDiff example_comps example_subject
      (add_BathDiff example_comps example_subject
        (add_BedDiff example_comps example_subject example_row_b))) = (0, 0, 10000)"
  "sort_cols (add_PriceDiff example_comps example_subject
      (add_BathDiff example_comps example_subject
        (add_BedDiff example_comps example_subject example_row_c))) = (1, 0, 0)"
  by (simp_all add: sort_cols_def add_PriceDiff_def add_BathDiff_def add_BedDiff_def example_cols
      example_subject_def example_row_a_def example_row_b_def example_row_c_def)

lemma example_ranked:
  "ranked_comps example_comps example_subject =
     [add_PriceDiff example_comps example_subject
        (add_BathDiff example_comps example_subject
          (add_BedDiff example_comps example_subject example_row_b)),
      add_PriceDiff example_comps example_subject
        (add_BathDiff example_comps example_subject
          (add_BedDiff example_comps example_subject example_row_a)),
      add_PriceDiff example_comps example_subject
        (add_BathDiff example_comps example_subject
          (add_BedDiff example_comps example_subject example_row_c))]"
  by (simp add: ranked_comps_def Let_def example_selected example_keys less_eq_prod_def)

lemma example_ranked_values:
  "map (\<lambda>r. (r ''beds'', r ''baths'', r ''price'')) (ranked_comps example_comps example_subject)
     = [(3, 2, 210000), (3, 2, 250000), (4, 2, 200000)]"
  unfolding example_ranked
  by (simp add: added_columns_only example_row_a_def example_row_b_def example_row_c_def)

text \<open>
  On the example the ranking is \<open>b, a, c\<close>: the sale at exactly the subject's price comes
  last, because it is one bedroom away.
\<close>

theorem ranked_comps_lexicographic_witness:
  "beds_col example_comps = Some ''beds'' \<and> subj_beds example_subject = Some 3
   \<and> baths_col example_comps = Some ''baths'' \<and> subj_baths example_subject = Some 2
   \<and> price_col example_comps = Some ''price'' \<and> subj_price example_subject = Some 200000
   \<and> df_rows example_comps = [example_row_c, example_row_a, example_row_b]
   \<and> map (\<lambda>r. (r ''beds'', r ''baths'', r ''price'')) (ranked_comps example_comps example_subject)
       = [(3, 2, 210000), (3, 2, 250000), (4, 2, 200000)]
   \<and> mset (ranked_comps example_comps example_subject)
       = mset (map (\<lambda>r. add_PriceDiff example_comps example_subject
                 (add_BathDiff example_comps example_subject
                   (add_BedDiff example_comps example_subject r)))
           [example_row_c, example_row_a, example_row_b])
   \<and> lex3_le (abs_diffs ''beds'' 3 ''baths'' 2 ''price'' 200000
                (ranked_comps example_comps example_subject ! 1))
              (abs_diffs ''beds'' 3 ''baths'' 2 ''price'' 200000
                (ranked_comps example_comps example_subject ! 2))
   \<and> (0 :: nat) < 1"
proof -
  note inst = ranked_comps_lexicographic[where df = example_comps and s = example_subject,
      OF example_cols(2) example_subject_fields(1) example_cols(3) example_subject_fields(2)
        example_cols(5) example_subject_fields(3)]
  have len: "length (ranked_comps example_comps example_subject) = 3"
    by (simp add: example_ranked)
  have vals: "(ranked_comps example_comps example_subject ! 0) ''beds'' = 3"
    "(ranked_comps example_comps example_subject ! 0) ''baths'' = 2"
    "(ranked_comps example_comps example_subject ! 0) ''price'' = 210000"
    "(ranked_comps example_comps example_subject ! Suc 0) ''beds'' = 3"
    "(ranked_comps example_comps example_subject ! Suc 0) ''baths'' = 2"
    "(ranked_comps example_comps example_subject ! Suc 0) ''price'' = 250000"
    unfolding example_ranked
    by (simp_all add: added_columns_only example_row_a_def example_row_b_def)
  from inst have m: "mset (ranked_comps example_comps example_subject)
       = mset (map (\<lambda>r. add_PriceDiff example_comps example_subject
                 (add_BathDiff example_comps example_subject
                   (add_BedDiff example_comps example_subject r)))
           [example_row_c, example_row_a, example_row_b])"
    by (simp only: example_selected)
  from inst have "(1 :: nat) < 2 \<and> 2 < length (ranked_comps example_comps example_subject)
      \<longrightarrow> lex3_le (abs_diffs ''beds'' 3 ''baths'' 2 ''price'' 200000
                (ranked_comps example_comps example_subject ! 1))
              (abs_diffs ''beds'' 3 ''baths'' 2 ''price'' 200000
                (ranked_comps example_comps example_subject ! 2))"
    by blast
  then have l: "lex3_le (abs_diffs ''beds'' 3 ''baths'' 2 ''price'' 200000
                (ranked_comps example_comps example_subject ! 1))
              (abs_diffs ''beds'' 3 ''baths'' 2 ''price'' 200000
                (ranked_comps example_comps example_subject ! 2))"
    by (simp add: len)
  from inst have "(0 :: nat) < length (ranked_comps example_comps example_subject)
      \<and> Suc 0 < length (ranked_comps example_comps example_subject)
      \<and> \<bar>(ranked_comps example_comps example_subject ! 0) ''beds'' - 3\<bar>
          = \<bar>(ranked_comps example_comps example_subject ! Suc 0) ''beds'' - 3\<bar>
      \<and> \<bar>(ranked_comps example_comps example_subject ! 0) ''baths'' - 2\<bar>
          = \<bar>(ranked_comps example_comps example_subject ! Suc 0) ''baths'' - 2\<bar>
      \<and> \<bar>(ranked_comps example_comps example_subject ! 0) ''price'' - 200000\<bar>
          < \<bar>(ranked_comps example_comps example_subject ! Suc 0) ''price'' - 200000\<bar>
      \<longrightarrow> (0 :: nat) < Suc 0"
    by blast
  then have t: "(0 :: nat) < 1"
    by (simp add: len vals)
  have rows: "df_rows example_comps = [example_row_c, example_row_a, example_row_b]"
    by (simp add: example_comps_def)
  show ?thesis
    using example_cols(2,3,5) example_subject_fields rows example_ranked_values m l t
    by (intro conjI)
qed

lemma ranked_comps_empty:
  assumes "select_rows df s = []"
  shows "ranked_comps df s = []"
proof -
  have "remove_outliers df [] = []"
    by (simp add: remove_outliers_def split: option.splits)
  then show ?thesis by (simp add: ranked_comps_def assms)
qed

lemma select_rows_empty:
  assumes "\<forall>r \<in> set (df_rows df). \<not> (zip_ok df s r \<and> beds_ok df s r \<and> baths_ok df s r \<and> sqft_ok df s r)"
  shows "select_rows df s = []"
proof -
  have "select_rows df s
      = filter (\<lambda>r. zip_ok df s r \<and> beds_ok df s r \<and> baths_ok df s r \<and> sqft_ok df s r) (df_rows df)"
    by (auto simp: select_rows_def intro: filter_cong)
  also have "\<dots> = []" using assms by (simp add: filter_empty_conv)
  finally show ?thesis .
qed

lemma no_comps_is_not_error: "no_comps_message cols \<noteq> comps_error_message e"
  by (cases cols) (auto simp: no_comps_message_def comps_error_message_def)

text \<open>
  C9 (as the code has it). When no row satisfies the applicable zip, beds, baths and
  square-feet criteria, the comparables step returns the "No comparable properties found."
  result, which differs from the "Comps error" result of the exception handler. A criterion
  whose column is missing is not applied, so a missing column alone does not give the
  empty result. The step is a total function: nothing is raised out of it.
\<close>

theorem comps_step_no_match:
  "((\<forall>r \<in> set (df_rows df).
        \<not> (zip_ok df s r \<and> beds_ok df s r \<and> baths_ok df s r \<and> sqft_ok df s r))
      \<longrightarrow> comps_step df s = no_comps_message (table_cols df))
   \<and> no_comps_message (table_cols df) \<noteq> comps_error_message e
   \<and> (zip_col df = None \<longrightarrow> zip_ok df s r) \<and> (beds_col df = None \<longrightarrow> beds_ok df s r)
   \<and> (baths_col df = None \<longrightarrow> baths_ok df s r) \<and> (sqft_col df = None \<longrightarrow> sqft_ok df s r)"
proof (intro conjI impI)
  assume "\<forall>r \<in> set (df_rows df).
        \<not> (zip_ok df s r \<and> beds_ok df s r \<and> baths_ok df s r \<and> sqft_ok df s r)"
  then have "ranked_comps df s = []"
    by (intro ranked_comps_empty select_rows_empty)
  then show "comps_step df s = no_comps_message (table_cols df)"
    by (simp add: comps_step_def)
next
  show "no_comps_message (table_cols df) \<noteq> comps_error_message e"
    by (rule no_comps_is_not_error)
qed (simp_all add: zip_ok_def beds_ok_def baths_ok_def sqft_ok_def)

lemma example_no_beds_cols:
  "zip_col example_comps_no_beds = None" "beds_col example_comps_no_beds = None"
  "baths_col example_comps_no_beds = Some ''baths''" "sqft_col example_comps_no_beds = None"
  "price_col example_comps_no_beds = Some ''price''" "year_col example_comps_no_beds = None"
  "address_col example_comps_no_beds = None"
  by (simp_all add: zip_col_def beds_col_def baths_col_def sqft_col_def price_col_def year_col_def
      address_col_def example_comps_no_beds_def)

theorem comps_step_missing_column_counterexample:
  "beds_col example_comps_no_beds = None \<and> sqft_col example_comps_no_beds = None
   \<and> (case comps_step example_comps_no_beds example_subject of
        Records cols rows \<Rightarrow> cols = [''price'', ''baths''] \<and> length rows = 1
      | Message text \<Rightarrow> False)"
proof -
  have sel: "remove_outliers example_comps_no_beds
      (select_rows example_comps_no_beds example_subject) = [example_row_a]"
    by (simp add: remove_outliers_def select_rows_def zip_ok_def beds_ok_def baths_ok_def
        sqft_ok_def example_no_beds_cols example_subject_def example_row_a_def)
      (simp add: example_comps_no_beds_def example_row_a_def)
  have "length (ranked_comps example_comps_no_beds example_subject) = 1"
    by (simp add: ranked_comps_def Let_def sel)
  moreover have "table_cols example_comps_no_beds = [''price'', ''baths'']"
    by (simp add: table_cols_def example_no_beds_cols)
  ultimately show ?thesis
    by (auto simp: comps_step_def Let_def example_no_beds_cols)
qed

lemma example_far_cols:
  "zip_col example_comps_far = None" "beds_col example_comps_far = Some ''beds''"
  "baths_col example_comps_far = Some ''baths''" "sqft_col example_comps_far = None"
  "price_col example_comps_far = Some ''price''" "year_col example_comps_far = None"
  "address_col example_comps_far = None"
  by (simp_all add: zip_col_def beds_col_def baths_col_def sqft_col_def price_col_def year_col_def
      address_col_def example_comps_far_def)

theorem comps_step_no_match_witness:
  "df_rows example_comps_far = [example_row_a]
   \<and> \<not> beds_ok example_comps_far example_subject_far example_row_a
   \<and> comps_step example_comps_far example_subject_far
       = Message [(''price'', ''No comparable properties found.''),
                  (''beds'', ''No comparable properties found.''),
                  (''baths'', ''No comparable properties found.'')]
   \<and> sqft_col example_comps_far = None
   \<and> sqft_ok example_comps_far example_subject_far example_row_a"
proof -
  have rows: "df_rows example_comps_far = [example_row_a]" by (simp add: example_comps_far_def)
  have nb: "\<not> beds_ok example_comps_far example_subject_far example_row_a"
    by (simp add: beds_ok_def example_far_cols example_subject_far_def example_row_a_def)
  have cols: "table_cols example_comps_far = [''price'', ''beds'', ''baths'']"
    by (simp add: table_cols_def example_far_cols)
  from comps_step_no_match[where df = example_comps_far and s = example_subject_far
      and r = example_row_a] rows nb
  have "comps_step example_comps_far example_subject_far = no_comps_message (table_cols example_comps_far)"
    and "sqft_ok example_comps_far example_subject_far example_row_a"
    by (simp_all add: example_far_cols)
  then show ?thesis
    using rows nb by (simp add: cols no_comps_message_def example_far_cols)
qed

end
